theory Spec2Isabelle
  imports Complex_Main "HOL-Library.Word"
begin

section \<open>The Stratus ATC X-Plane adapter plugin (stratus\_plugin.c)\<close>

text \<open>
  The plugin is a set of callbacks the simulator calls on one thread. Its state is a
  handful of C globals; everything else it touches belongs to the host process: the
  simulator's DataRefs and flight-loop registry, the file system, the environment and
  the clock. The model is explicit state passing over one record \<open>world\<close> that holds
  both, the globals under their C names.

  Conventions of the embedding:
  \<^item> a pointer or handle that may be \<open>NULL\<close> is an \<open>option\<close>, \<open>NULL\<close> being \<open>None\<close>;
    the log stream \<open>g_log_fp\<close> is the boolean "is not \<open>NULL\<close>";
  \<^item> a C string is a \<open>string\<close>; \<open>snprintf (buf, n, ...)\<close> keeps the first \<open>n - 1\<close>
    characters;
  \<^item> \<open>int\<close> is \<open>32 word\<close>, read signed; \<open>long\<close> and \<open>time_t\<close> are \<open>64 word\<close>
    (the Linux branch of the platform conditionals is the one modelled);
  \<^item> \<open>float\<close> and \<open>double\<close> values are only copied from the simulator into
    \<open>printf\<close>; they are modelled by the real number they denote, and the conversion
    \<open>%.Nf\<close> of the C library is the field \<open>printf_f\<close> of the world (NaN and the
    infinities are outside the model);
  \<^item> the file system is a map from paths to contents. Opening a path for writing, and
    renaming a file onto it, fails on the paths in \<open>denied\<close>; a write is cut short
    when \<open>disk_free\<close> bytes have been written. Directories (the
    \<open>stat\<close>/\<open>mkdir\<close> of \<open>InitFilePaths\<close>) are not modelled: a missing directory
    is a denied path;
  \<^item> the plugin's own log file is the list \<open>log_lines\<close> of (level, message) pairs,
    without the time stamps.
\<close>

subsection \<open>Data\<close>

type_synonym XPLMDataRef = nat
type_synonym XPLMFlightLoopID = nat

text \<open>The 25 static DataRef handle variables (lines 50 to 80).\<close>

datatype dref =
    dr_lat | dr_lon | dr_alt_msl | dr_alt_agl
  | dr_hdg_mag | dr_hdg_true | dr_pitch | dr_roll
  | dr_gnd_speed | dr_ias | dr_tas | dr_vs
  | dr_on_ground | dr_paused
  | dr_com1_freq | dr_com1_stdby | dr_com2_freq | dr_com2_stdby
  | dr_nav1_freq | dr_nav2_freq
  | dr_xpdr_code | dr_xpdr_mode
  | dr_ap_alt | dr_ap_hdg | dr_ap_vs

text \<open>The two phases of a tick, recorded in the ghost field \<open>phases\<close> when
  \<open>FlightLoopCallback\<close> calls them.\<close>

datatype phase = Sampling | Draining

record world =
  \<comment> \<open>the plugin's globals\<close>
  g_data_dir :: string
  g_input_file :: string
  g_output_file :: string
  g_log_file :: string
  drefs :: "dref \<Rightarrow> XPLMDataRef option"
  g_flight_loop_id :: "XPLMFlightLoopID option"
  g_log_fp :: bool
  \<comment> \<open>the host simulator\<close>
  find_dataref :: "string \<Rightarrow> XPLMDataRef option"
  datad :: "XPLMDataRef \<Rightarrow> real"
  dataf :: "XPLMDataRef \<Rightarrow> real"
  datai :: "XPLMDataRef \<Rightarrow> 32 word"
  acf_file :: string
  loops :: "XPLMFlightLoopID \<rightharpoonup> (real \<times> 32 word)"
  next_loop :: XPLMFlightLoopID
  \<comment> \<open>the operating system and the C library\<close>
  env_HOME :: "string option"
  pw_dir :: "string option"
  clock :: "64 word"
  fs :: "string \<rightharpoonup> string"
  denied :: "string set"
  disk_free :: nat
  printf_f :: "nat \<Rightarrow> real \<Rightarrow> string"
  log_lines :: "(string \<times> string) list"
  \<comment> \<open>ghost\<close>
  phases :: "phase list"

subsection \<open>C library and host calls\<close>

definition snprintf :: "nat \<Rightarrow> string \<Rightarrow> string" where
  "snprintf n s = take (n - 1) s"

text \<open>\<open>fopen (path, "w")\<close>: fails on a denied path, else creates or truncates the file.\<close>

definition fopen_w :: "string \<Rightarrow> world \<Rightarrow> world option" where
  "fopen_w path w =
     (if path \<in> denied w then None else Some (w\<lparr>fs := (fs w)(path \<mapsto> [])\<rparr>))"

text \<open>One \<open>fprintf\<close> to the stream opened on \<open>path\<close>: the bytes the disk still
  accepts are appended, the rest is lost (the source ignores the return value).\<close>

definition fprintf :: "string \<Rightarrow> string \<Rightarrow> world \<Rightarrow> world" where
  "fprintf path s w =
     (let k = take (disk_free w) s;
          old = (case fs w path of None \<Rightarrow> [] | Some c \<Rightarrow> c)
      in w\<lparr>fs := (fs w)(path \<mapsto> old @ k), disk_free := disk_free w - length k\<rparr>)"

fun fprintf_seq :: "string \<Rightarrow> string list \<Rightarrow> world \<Rightarrow> world list" where
  "fprintf_seq path [] w = []"
| "fprintf_seq path (s # ss) w =
     (let w' = fprintf path s w in w' # fprintf_seq path ss w')"

text \<open>\<open>rename (src, dst)\<close>: one step that replaces \<open>dst\<close> by the file at \<open>src\<close>. It
  fails, changing nothing, when \<open>src\<close> does not exist, when \<open>dst\<close> is the empty
  path, and when \<open>dst\<close> cannot be replaced (a denied path: a directory, a place the
  process may not write). The source ignores its result.\<close>

definition rename_file :: "string \<Rightarrow> string \<Rightarrow> world \<Rightarrow> world" where
  "rename_file src dst w =
     (case fs w src of
        None \<Rightarrow> w
      | Some c \<Rightarrow>
          if dst = [] \<or> dst \<in> denied w then w
          else if src = dst then w
          else w\<lparr>fs := (fs w)(src := None, dst \<mapsto> c)\<rparr>)"

text \<open>\<open>XPLMCreateFlightLoop\<close> registers a new, unscheduled flight loop with the host
  and returns its identifier; \<open>XPLMDestroyFlightLoop\<close> removes the registration;
  \<open>XPLMScheduleFlightLoop\<close> stores the interval and the relative-to-now flag.\<close>

definition XPLMCreateFlightLoop :: "world \<Rightarrow> world \<times> XPLMFlightLoopID" where
  "XPLMCreateFlightLoop w =
     (w\<lparr>loops := (loops w)(next_loop w \<mapsto> (0, 0)), next_loop := Suc (next_loop w)\<rparr>,
      next_loop w)"

definition XPLMDestroyFlightLoop :: "XPLMFlightLoopID \<Rightarrow> world \<Rightarrow> world" where
  "XPLMDestroyFlightLoop i w = w\<lparr>loops := (loops w)(i := None)\<rparr>"

definition XPLMScheduleFlightLoop ::
    "XPLMFlightLoopID \<Rightarrow> real \<Rightarrow> 32 word \<Rightarrow> world \<Rightarrow> world" where
  "XPLMScheduleFlightLoop i interval relative w =
     (if i \<in> dom (loops w) then w\<lparr>loops := (loops w)(i \<mapsto> (interval, relative))\<rparr> else w)"

subsection \<open>Logging (lines 93 to 145)\<close>

definition LogOpen :: "world \<Rightarrow> world" where
  "LogOpen w =
     (if g_log_fp w then w
      else if g_log_file w \<in> denied w then w
      else w\<lparr>g_log_fp := True,
              log_lines := log_lines w @ [(''==='', ''StratusATC Session Started'')]\<rparr>)"

definition LogClose :: "world \<Rightarrow> world" where
  "LogClose w =
     (if g_log_fp w
      then w\<lparr>g_log_fp := False, log_lines := log_lines w @ [(''==='', ''Session Ended'')]\<rparr>
      else w)"

definition Log :: "string \<Rightarrow> string \<Rightarrow> world \<Rightarrow> world" where
  "Log level msg w =
     (if \<not> g_log_fp w then w else w\<lparr>log_lines := log_lines w @ [(level, msg)]\<rparr>)"

abbreviation LOG_INFO :: "string \<Rightarrow> world \<Rightarrow> world" where
  "LOG_INFO \<equiv> Log ''INFO''"

abbreviation LOG_ERROR :: "string \<Rightarrow> world \<Rightarrow> world" where
  "LOG_ERROR \<equiv> Log ''ERROR''"

subsection \<open>Initialisation (lines 227 to 333)\<close>

definition InitFilePaths :: "world \<Rightarrow> world" where
  "InitFilePaths w =
     (let home = (case env_HOME w of Some h \<Rightarrow> Some h | None \<Rightarrow> pw_dir w);
          dir = (case home of
                   Some h \<Rightarrow> snprintf 512 (h @ ''/.local/share/StratusATC'')
                 | None \<Rightarrow> snprintf 512 ''/tmp/StratusATC'')
      in w\<lparr>g_data_dir := dir,
            g_input_file := snprintf 1024 (dir @ ''/simAPI_input.json''),
            g_output_file := snprintf 1024 (dir @ ''/simAPI_output.jsonl''),
            g_log_file := snprintf 1024 (dir @ ''/stratus_atc.log'')\<rparr>)"

fun dataref_name :: "dref \<Rightarrow> string" where
  "dataref_name dr_lat = ''sim/flightmodel/position/latitude''"
| "dataref_name dr_lon = ''sim/flightmodel/position/longitude''"
| "dataref_name dr_alt_msl = ''sim/flightmodel/position/elevation''"
| "dataref_name dr_alt_agl = ''sim/flightmodel/position/y_agl''"
| "dataref_name dr_hdg_mag = ''sim/flightmodel/position/mag_psi''"
| "dataref_name dr_hdg_true = ''sim/flightmodel/position/true_psi''"
| "dataref_name dr_pitch = ''sim/flightmodel/position/theta''"
| "dataref_name dr_roll = ''sim/flightmodel/position/phi''"
| "dataref_name dr_gnd_speed = ''sim/flightmodel/position/groundspeed''"
| "dataref_name dr_ias = ''sim/flightmodel/position/indicated_airspeed''"
| "dataref_name dr_tas = ''sim/flightmodel/position/true_airspeed''"
| "dataref_name dr_vs = ''sim/flightmodel/position/vh_ind_fpm''"
| "dataref_name dr_on_ground = ''sim/flightmodel/failures/onground_any''"
| "dataref_name dr_paused = ''sim/time/paused''"
| "dataref_name dr_com1_freq = ''sim/cockpit2/radios/actuators/com1_frequency_hz_833''"
| "dataref_name dr_com1_stdby =
     ''sim/cockpit2/radios/actuators/com1_standby_frequency_hz_833''"
| "dataref_name dr_com2_freq = ''sim/cockpit2/radios/actuators/com2_frequency_hz_833''"
| "dataref_name dr_com2_stdby =
     ''sim/cockpit2/radios/actuators/com2_standby_frequency_hz_833''"
| "dataref_name dr_nav1_freq = ''sim/cockpit2/radios/actuators/nav1_frequency_hz''"
| "dataref_name dr_nav2_freq = ''sim/cockpit2/radios/actuators/nav2_frequency_hz''"
| "dataref_name dr_xpdr_code = ''sim/cockpit/radios/transponder_code''"
| "dataref_name dr_xpdr_mode = ''sim/cockpit/radios/transponder_mode''"
| "dataref_name dr_ap_alt = ''sim/cockpit/autopilot/altitude''"
| "dataref_name dr_ap_hdg = ''sim/cockpit/autopilot/heading_mag''"
| "dataref_name dr_ap_vs = ''sim/cockpit/autopilot/vertical_velocity''"

definition InitDataRefs :: "world \<Rightarrow> world" where
  "InitDataRefs w =
     LOG_INFO ''DataRefs initialized''
       (w\<lparr>drefs := (\<lambda>d. find_dataref w (dataref_name d))\<rparr>)"

subsection \<open>Publishing the snapshot (lines 349 to 447)\<close>

text \<open>\<open>printf\<close>'s \<open>%d\<close> and \<open>%ld\<close>: the decimal digits of a signed integer.\<close>

definition digit_char :: "nat \<Rightarrow> char" where
  "digit_char d = ''0123456789'' ! d"

fun show_nat :: "nat \<Rightarrow> string" where
  "show_nat n =
     (if n < 10 then [digit_char n] else show_nat (n div 10) @ [digit_char (n mod 10)])"

declare show_nat.simps [simp del]

definition printf_d :: "int \<Rightarrow> string" where
  "printf_d i = (if i < 0 then CHR ''-'' # show_nat (nat (- i)) else show_nat (nat i))"

text \<open>Reading a DataRef through its handle variable, with the default of the source
  when the handle is \<open>NULL\<close> (lines 364 to 390):
  \<^verbatim>\<open>double lat = dr_lat ? XPLMGetDatad(dr_lat) : 0.0;\<close>\<close>

definition getd :: "world \<Rightarrow> dref \<Rightarrow> real" where
  "getd w d = (case drefs w d of Some h \<Rightarrow> datad w h | None \<Rightarrow> 0)"

definition getf :: "world \<Rightarrow> dref \<Rightarrow> real" where
  "getf w d = (case drefs w d of Some h \<Rightarrow> dataf w h | None \<Rightarrow> 0)"

definition geti :: "world \<Rightarrow> dref \<Rightarrow> 32 word" where
  "geti w d = (case drefs w d of Some h \<Rightarrow> datai w h | None \<Rightarrow> 0)"

definition bool_text :: "32 word \<Rightarrow> string" where
  "bool_text i = (if i \<noteq> 0 then ''true'' else ''false'')"

text \<open>The text of the 44 \<open>fprintf\<close> calls of lines 398 to 441, one list element per
  call.\<close>

definition telemetry_json :: "world \<Rightarrow> string list" where
  \<open>telemetry_json w =
   [''{\<newline>'',
    ''  "timestamp": '' @ printf_d (sint (clock w)) @ '',\<newline>'',
    ''  "simulator": "X-Plane",\<newline>'',
    ''  "aircraft": "'' @ acf_file w @ ''",\<newline>'',
    ''  "position": {\<newline>'',
    ''    "latitude": '' @ printf_f w 8 (getd w dr_lat) @ '',\<newline>'',
    ''    "longitude": '' @ printf_f w 8 (getd w dr_lon) @ '',\<newline>'',
    ''    "altitude_msl_m": '' @ printf_f w 2 (getd w dr_alt_msl) @ '',\<newline>'',
    ''    "altitude_agl_m": '' @ printf_f w 2 (getf w dr_alt_agl) @ ''\<newline>'',
    ''  },\<newline>'',
    ''  "orientation": {\<newline>'',
    ''    "heading_mag": '' @ printf_f w 2 (getf w dr_hdg_mag) @ '',\<newline>'',
    ''    "heading_true": '' @ printf_f w 2 (getf w dr_hdg_true) @ '',\<newline>'',
    ''    "pitch": '' @ printf_f w 2 (getf w dr_pitch) @ '',\<newline>'',
    ''    "roll": '' @ printf_f w 2 (getf w dr_roll) @ ''\<newline>'',
    ''  },\<newline>'',
    ''  "speed": {\<newline>'',
    ''    "ground_speed_mps": '' @ printf_f w 2 (getf w dr_gnd_speed) @ '',\<newline>'',
    ''    "ias_kts": '' @ printf_f w 2 (getf w dr_ias) @ '',\<newline>'',
    ''    "tas_mps": '' @ printf_f w 2 (getf w dr_tas) @ '',\<newline>'',
    ''    "vertical_speed_fpm": '' @ printf_f w 2 (getf w dr_vs) @ ''\<newline>'',
    ''  },\<newline>'',
    ''  "radios": {\<newline>'',
    ''    "com1_hz": '' @ printf_d (sint (geti w dr_com1_freq)) @ '',\<newline>'',
    ''    "com1_standby_hz": '' @ printf_d (sint (geti w dr_com1_stdby)) @ '',\<newline>'',
    ''    "com2_hz": '' @ printf_d (sint (geti w dr_com2_freq)) @ '',\<newline>'',
    ''    "com2_standby_hz": '' @ printf_d (sint (geti w dr_com2_stdby)) @ '',\<newline>'',
    ''    "nav1_hz": '' @ printf_d (sint (geti w dr_nav1_freq)) @ '',\<newline>'',
    ''    "nav2_hz": '' @ printf_d (sint (geti w dr_nav2_freq)) @ ''\<newline>'',
    ''  },\<newline>'',
    ''  "transponder": {\<newline>'',
    ''    "code": '' @ printf_d (sint (geti w dr_xpdr_code)) @ '',\<newline>'',
    ''    "mode": '' @ printf_d (sint (geti w dr_xpdr_mode)) @ ''\<newline>'',
    ''  },\<newline>'',
    ''  "autopilot": {\<newline>'',
    ''    "altitude_ft": '' @ printf_f w 0 (getf w dr_ap_alt) @ '',\<newline>'',
    ''    "heading": '' @ printf_f w 0 (getf w dr_ap_hdg) @ '',\<newline>'',
    ''    "vs_fpm": '' @ printf_f w 0 (getf w dr_ap_vs) @ ''\<newline>'',
    ''  },\<newline>'',
    ''  "state": {\<newline>'',
    ''    "on_ground": '' @ bool_text (geti w dr_on_ground) @ '',\<newline>'',
    ''    "paused": '' @ bool_text (geti w dr_paused) @ ''\<newline>'',
    ''  }\<newline>'',
    ''}\<newline>'']\<close>

text \<open>The successive worlds of one call of \<open>WriteTelemetryJSON\<close>, one per file-system
  operation: after \<open>fopen\<close>, after each \<open>fprintf\<close>, after \<open>rename\<close>
  (\<open>fclose\<close> changes nothing in this model: every \<open>fprintf\<close> reaches the file at
  once, which is the finest interleaving a concurrent reader can see). When \<open>fopen\<close>
  fails the only step is the \<open>LOG_ERROR\<close>. \<open>tmp_file\<close> is the local
  buffer of that name (line 352).\<close>

definition tmp_file :: "world \<Rightarrow> string" where
  "tmp_file w = snprintf 1024 (g_input_file w @ ''.tmp'')"

definition WriteTelemetryJSON_trace :: "world \<Rightarrow> world list" where
  "WriteTelemetryJSON_trace w =
     (case fopen_w (tmp_file w) w of
        None \<Rightarrow> [LOG_ERROR (''Failed to open temp file for writing: '' @ tmp_file w) w]
      | Some w1 \<Rightarrow>
          (let ws = w1 # fprintf_seq (tmp_file w) (telemetry_json w1) w1
           in ws @ [rename_file (tmp_file w) (g_input_file w) (last ws)]))"

definition WriteTelemetryJSON :: "world \<Rightarrow> world" where
  "WriteTelemetryJSON w = last (WriteTelemetryJSON_trace w)"

subsection \<open>Draining the command log (lines 449 to 460)\<close>

text \<open>The body of \<open>ReadCommandsJSONL\<close> is a comment (\<open>TODO: Implement command reading
  from simAPI_output.jsonl ... Each line is a JSON object. We read, parse, execute, then
  truncate.\<close>) and no statement.\<close>

definition ReadCommandsJSONL :: "world \<Rightarrow> world" where
  "ReadCommandsJSONL w = w"

subsection \<open>The flight-loop callback (lines 335 to 347)\<close>

text \<open>The callback ignores its four arguments, calls the two phases and returns the
  interval after which the host is to call it again. The ghost field \<open>phases\<close> records
  each call as it is made.\<close>

definition FlightLoopCallback :: "world \<Rightarrow> world \<times> real" where
  "FlightLoopCallback w =
     (let w1 = WriteTelemetryJSON (w\<lparr>phases := phases w @ [Sampling]\<rparr>);
          w2 = ReadCommandsJSONL (w1\<lparr>phases := phases w1 @ [Draining]\<rparr>)
      in (w2, 1))"

text \<open>The same callback with its second call as a parameter; \<open>FlightLoopCallback\<close> is
  this function at \<open>ReadCommandsJSONL\<close>. It serves to state in which world the
  draining phase starts, whatever that phase does.\<close>

definition FlightLoopCallback_with :: "(world \<Rightarrow> world) \<Rightarrow> world \<Rightarrow> world \<times> real" where
  "FlightLoopCallback_with drain w =
     (let w1 = WriteTelemetryJSON (w\<lparr>phases := phases w @ [Sampling]\<rparr>);
          w2 = drain (w1\<lparr>phases := phases w1 @ [Draining]\<rparr>)
      in (w2, 1))"

subsection \<open>The plugin callbacks (lines 161 to 220)\<close>

definition PLUGIN_NAME :: string where "PLUGIN_NAME = ''Stratus ATC''"
definition PLUGIN_SIG :: string where "PLUGIN_SIG = ''community.stratus.xplane.atc''"
definition PLUGIN_DESC :: string where
  "PLUGIN_DESC = ''Bridges X-Plane to Stratus ATC native client''"
definition PLUGIN_VERSION :: string where "PLUGIN_VERSION = ''0.2.0''"

text \<open>\<open>XPluginStart\<close> returns 1 and fills the three output buffers.\<close>

definition XPluginStart :: "world \<Rightarrow> world \<times> 32 word \<times> string \<times> string \<times> string" where
  "XPluginStart w =
     (let w1 = InitFilePaths w;
          w2 = LogOpen w1;
          w3 = LOG_INFO (''Plugin starting (version '' @ PLUGIN_VERSION @ '')'') w2;
          w4 = LOG_INFO (''Data directory: '' @ g_data_dir w3) w3;
          w5 = InitDataRefs w4;
          (w6, i) = XPLMCreateFlightLoop w5;
          w7 = w6\<lparr>g_flight_loop_id := Some i\<rparr>;
          w8 = LOG_INFO ''Plugin started successfully'' w7
      in (w8, 1, PLUGIN_NAME, PLUGIN_SIG, PLUGIN_DESC))"

definition XPluginStop :: "world \<Rightarrow> world" where
  "XPluginStop w =
     (let w1 = (case g_flight_loop_id w of
                  Some i \<Rightarrow> (XPLMDestroyFlightLoop i w)\<lparr>g_flight_loop_id := None\<rparr>
                | None \<Rightarrow> w);
          w2 = LOG_INFO ''Plugin stopped'' w1
      in LogClose w2)"

definition XPluginEnable :: "world \<Rightarrow> world \<times> 32 word" where
  "XPluginEnable w =
     (let w1 = (case g_flight_loop_id w of
                  Some i \<Rightarrow> XPLMScheduleFlightLoop i 1 1 w
                | None \<Rightarrow> w)
      in (LOG_INFO ''Plugin enabled - telemetry streaming started'' w1, 1))"

definition XPluginDisable :: "world \<Rightarrow> world" where
  "XPluginDisable w =
     (let w1 = (case g_flight_loop_id w of
                  Some i \<Rightarrow> XPLMScheduleFlightLoop i 0 0 w
                | None \<Rightarrow> w)
      in LOG_INFO ''Plugin disabled - telemetry streaming stopped'' w1)"

definition XPluginReceiveMessage :: "world \<Rightarrow> world" where
  "XPluginReceiveMessage w = w"

subsection \<open>The states the plugin can be in\<close>

text \<open>The host loads the plugin with its globals zeroed, then calls its callbacks in
  some order; between two calls anything but the plugin's globals may change (the
  simulation runs, the client and other processes use the file system).\<close>

datatype host_call = Start | Stop | Enable | Disable | Tick | Message

fun call :: "host_call \<Rightarrow> world \<Rightarrow> world" where
  "call Start w = fst (XPluginStart w)"
| "call Stop w = XPluginStop w"
| "call Enable w = fst (XPluginEnable w)"
| "call Disable w = XPluginDisable w"
| "call Tick w = fst (FlightLoopCallback w)"
| "call Message w = XPluginReceiveMessage w"

fun calls :: "host_call list \<Rightarrow> world \<Rightarrow> world" where
  "calls [] w = w"
| "calls (c # cs) w = calls cs (call c w)"

definition fresh_globals :: "world \<Rightarrow> bool" where
  "fresh_globals w \<longleftrightarrow>
     g_data_dir w = [] \<and> g_input_file w = [] \<and> g_output_file w = [] \<and> g_log_file w = [] \<and>
     drefs w = (\<lambda>d. None) \<and> g_flight_loop_id w = None \<and> \<not> g_log_fp w"

definition same_globals :: "world \<Rightarrow> world \<Rightarrow> bool" where
  "same_globals w w' \<longleftrightarrow>
     g_data_dir w' = g_data_dir w \<and> g_input_file w' = g_input_file w \<and>
     g_output_file w' = g_output_file w \<and> g_log_file w' = g_log_file w \<and>
     drefs w' = drefs w \<and> g_flight_loop_id w' = g_flight_loop_id w \<and>
     g_log_fp w' = g_log_fp w"

inductive reachable :: "world \<Rightarrow> bool" where
  loaded: "fresh_globals w \<Longrightarrow> reachable w"
| called: "reachable w \<Longrightarrow> reachable (call c w)"
| environment: "reachable w \<Longrightarrow> same_globals w w' \<Longrightarrow> reachable w'"

definition paths_inv :: "world \<Rightarrow> bool" where
  "paths_inv w \<longleftrightarrow> length (g_input_file w) \<le> 529"

subsection \<open>Concrete worlds\<close>

text \<open>A freshly loaded plugin in a small concrete environment: two DataRefs exist (the
  COM1 frequency, with handle 7, and the on-ground flag, with handle 3), every float
  reads 0 and \<open>printf\<close> prints it as such, the disk has room for 4096 bytes.\<close>

definition zero_text :: "nat \<Rightarrow> string" where
  "zero_text p = (if p = 0 then ''0'' else if p = 2 then ''0.00'' else ''0.00000000'')"

definition boot_world :: world where
  "boot_world =
     \<lparr>g_data_dir = [], g_input_file = [], g_output_file = [], g_log_file = [],
      drefs = (\<lambda>d. None), g_flight_loop_id = None, g_log_fp = False,
      find_dataref = (\<lambda>s. if s = ''sim/cockpit2/radios/actuators/com1_frequency_hz_833''
                          then Some 7
                          else if s = ''sim/flightmodel/failures/onground_any'' then Some 3
                          else None),
      datad = (\<lambda>h. 0), dataf = (\<lambda>h. 0),
      datai = (\<lambda>h. if h = 7 then 118325000 else 1),
      acf_file = ''B738.acf'', loops = Map.empty, next_loop = 1,
      env_HOME = Some ''/home/pilot'', pw_dir = None, clock = 1000,
      fs = Map.empty, denied = {}, disk_free = 4096,
      printf_f = (\<lambda>p x. zero_text p), log_lines = [], phases = []\<rparr>"

text \<open>The same plugin started and enabled.\<close>

definition running_world :: world where
  "running_world = calls [Start, Enable] boot_world"

text \<open>The side file cannot be opened.\<close>

definition denied_world :: world where
  "denied_world = running_world\<lparr>denied := {tmp_file running_world}\<rparr>"

text \<open>A snapshot is published and the disk has room for five more bytes.\<close>

definition full_disk_world :: world where
  \<open>full_disk_world =
     running_world\<lparr>fs := [g_input_file running_world \<mapsto> ''{"timestamp": 999}\<newline>''],
                    disk_free := 5\<rparr>\<close>

text \<open>The client has appended one complete command to the command log.\<close>

definition command_line :: string where
  \<open>command_line = ''{"kind":"set_com1_frequency","params":{"hz":118325000}}\<newline>''\<close>

definition command_world :: world where
  "command_world = running_world\<lparr>fs := [g_output_file running_world \<mapsto> command_line]\<rparr>"

text \<open>The client has appended one complete command and is in the middle of the next.\<close>

definition command_fragment :: string where
  \<open>command_fragment = ''{"kind":"set_transp''\<close>

definition fragment_world :: world where
  "fragment_world =
     running_world\<lparr>fs := [g_output_file running_world \<mapsto> command_line @ command_fragment]\<rparr>"

text \<open>The aircraft file has a double quote in its name.\<close>

definition quoted_world :: world where
  \<open>quoted_world = running_world\<lparr>acf_file := ''x", "extra": "y.acf''\<rparr>\<close>

section \<open>Reading the snapshot as JSON\<close>

text \<open>What the snapshot document contains is stated through a reader of JSON text,
  written independently of the code that prints the text: a lexer and a parser for
  objects, strings, numbers, \<open>true\<close>, \<open>false\<close> and \<open>null\<close> (arrays are not
  read: the snapshot has none). An object is the list of its members, in the order of
  the text.\<close>

datatype json = JNull | JBool bool | JNum string | JStr string | JObj "(string \<times> json) list"

datatype tok = TLBrace | TRBrace | TColon | TComma | TStr string | TLit string

datatype lex_mode = LTop | InStr string | InEsc string | InLit string

text \<open>The classes of characters the reader tells apart. A literal character is one
  of those of a number or of \<open>true\<close>, \<open>false\<close> and \<open>null\<close>.\<close>

datatype char_class =
  CSpace | COpen | CClose | CColon | CComma | CQuote | CEscape | CLiteral | COther

definition classify :: "char \<Rightarrow> char_class" where
  "classify c =
     (if c = CHR '' '' \<or> c = CHR 0x09 \<or> c = CHR 0x0A \<or> c = CHR 0x0D then CSpace
      else if c = CHR ''{'' then COpen
      else if c = CHR ''}'' then CClose
      else if c = CHR '':'' then CColon
      else if c = CHR '','' then CComma
      else if c = CHR 0x22 then CQuote
      else if c = CHR 0x5C then CEscape
      else if c \<in> set ''0123456789+-.eEtrufalsn'' then CLiteral
      else COther)"

definition ctrl_char :: "char \<Rightarrow> bool" where
  "ctrl_char c \<longleftrightarrow> (of_char c :: nat) < 32"

definition unescape :: "char \<Rightarrow> char option" where
  "unescape c =
     (if c = CHR 0x22 \<or> c = CHR 0x5C \<or> c = CHR ''/'' then Some c
      else if c = CHR ''n'' then Some (CHR 0x0A)
      else if c = CHR ''t'' then Some (CHR 0x09)
      else if c = CHR ''r'' then Some (CHR 0x0D)
      else if c = CHR ''b'' then Some (CHR 0x08)
      else if c = CHR ''f'' then Some (CHR 0x0C)
      else None)"

definition emit :: "tok \<Rightarrow> tok list option \<Rightarrow> tok list option" where
  "emit t r = map_option ((#) t) r"

text \<open>The lexer: white space separates; a string runs to the closing quote, with the
  simple escapes decoded (\<open>\u\<close> escapes and raw control characters are refused); a
  literal is a maximal parse_run of literal characters.\<close>

function lex_json :: "lex_mode \<Rightarrow> string \<Rightarrow> tok list option" where
  "lex_json LTop [] = Some []"
| "lex_json LTop (c # cs) =
     (case classify c of
        CSpace \<Rightarrow> lex_json LTop cs
      | COpen \<Rightarrow> emit TLBrace (lex_json LTop cs)
      | CClose \<Rightarrow> emit TRBrace (lex_json LTop cs)
      | CColon \<Rightarrow> emit TColon (lex_json LTop cs)
      | CComma \<Rightarrow> emit TComma (lex_json LTop cs)
      | CQuote \<Rightarrow> lex_json (InStr []) cs
      | CEscape \<Rightarrow> None
      | CLiteral \<Rightarrow> lex_json (InLit [c]) cs
      | COther \<Rightarrow> None)"
| "lex_json (InStr acc) [] = None"
| "lex_json (InStr acc) (c # cs) =
     (if classify c = CQuote then emit (TStr (rev acc)) (lex_json LTop cs)
      else if classify c = CEscape then lex_json (InEsc acc) cs
      else if ctrl_char c then None
      else lex_json (InStr (c # acc)) cs)"
| "lex_json (InEsc acc) [] = None"
| "lex_json (InEsc acc) (c # cs) =
     (case unescape c of None \<Rightarrow> None | Some d \<Rightarrow> lex_json (InStr (d # acc)) cs)"
| "lex_json (InLit acc) [] = Some [TLit (rev acc)]"
| "lex_json (InLit acc) (c # cs) =
     (if classify c = CLiteral then lex_json (InLit (c # acc)) cs
      else emit (TLit (rev acc)) (lex_json LTop (c # cs)))"
  by pat_completeness auto

termination
  by (relation "measure (\<lambda>(m, s). 2 * length s + (case m of LTop \<Rightarrow> 0 | _ \<Rightarrow> 1))") auto

definition is_digit :: "char \<Rightarrow> bool" where
  "is_digit c \<longleftrightarrow> c \<in> set ''0123456789''"

text \<open>A number: an optional minus sign, digits, and optionally a point and digits.\<close>

definition unsigned_number :: "string \<Rightarrow> bool" where
  "unsigned_number u \<longleftrightarrow>
     takeWhile is_digit u \<noteq> [] \<and>
     (case dropWhile is_digit u of
        [] \<Rightarrow> True
      | c # f \<Rightarrow> c = CHR ''.'' \<and> f \<noteq> [] \<and> list_all is_digit f)"

definition json_number :: "string \<Rightarrow> bool" where
  "json_number s \<longleftrightarrow>
     (case s of
        [] \<Rightarrow> False
      | c # r \<Rightarrow> if c = CHR ''-'' then unsigned_number r else unsigned_number s)"

definition lit_value :: "string \<Rightarrow> json option" where
  "lit_value s =
     (if s = ''true'' then Some (JBool True)
      else if s = ''false'' then Some (JBool False)
      else if s = ''null'' then Some JNull
      else if json_number s then Some (JNum s)
      else None)"

text \<open>The parser is a machine over the tokens: \<open>PObj ms e st\<close> is inside an object
  with the members \<open>ms\<close> read so far (last first), expecting \<open>e\<close>, with the enclosing
  objects and the keys under which they hold this one in \<open>st\<close>.\<close>

datatype expect = KeyOrEnd | Key | Colon string | Val string | CommaOrEnd

datatype pstate =
    PStart
  | PDone json
  | PObj "(string \<times> json) list" expect "((string \<times> json) list \<times> string) list"

fun close_obj :: "(string \<times> json) list \<Rightarrow> ((string \<times> json) list \<times> string) list \<Rightarrow> pstate" where
  "close_obj ms [] = PDone (JObj (rev ms))"
| "close_obj ms ((ms', k) # st) = PObj ((k, JObj (rev ms)) # ms') CommaOrEnd st"

fun parse_step :: "pstate \<Rightarrow> tok \<Rightarrow> pstate option" where
  "parse_step PStart TLBrace = Some (PObj [] KeyOrEnd [])"
| "parse_step PStart (TStr s) = Some (PDone (JStr s))"
| "parse_step PStart (TLit l) = map_option PDone (lit_value l)"
| "parse_step (PObj ms KeyOrEnd st) (TStr k) = Some (PObj ms (Colon k) st)"
| "parse_step (PObj ms KeyOrEnd st) TRBrace = Some (close_obj ms st)"
| "parse_step (PObj ms Key st) (TStr k) = Some (PObj ms (Colon k) st)"
| "parse_step (PObj ms (Colon k) st) TColon = Some (PObj ms (Val k) st)"
| "parse_step (PObj ms (Val k) st) (TStr s) = Some (PObj ((k, JStr s) # ms) CommaOrEnd st)"
| "parse_step (PObj ms (Val k) st) (TLit l) =
     map_option (\<lambda>v. PObj ((k, v) # ms) CommaOrEnd st) (lit_value l)"
| "parse_step (PObj ms (Val k) st) TLBrace = Some (PObj [] KeyOrEnd ((ms, k) # st))"
| "parse_step (PObj ms CommaOrEnd st) TComma = Some (PObj ms Key st)"
| "parse_step (PObj ms CommaOrEnd st) TRBrace = Some (close_obj ms st)"
| "parse_step _ _ = None"

fun parse_run :: "pstate \<Rightarrow> tok list \<Rightarrow> pstate option" where
  "parse_run p [] = Some p"
| "parse_run p (t # ts) = (case parse_step p t of None \<Rightarrow> None | Some p' \<Rightarrow> parse_run p' ts)"

definition parse_json :: "string \<Rightarrow> json option" where
  "parse_json s =
     (case lex_json LTop s of
        None \<Rightarrow> None
      | Some ts \<Rightarrow> (case parse_run PStart ts of Some (PDone v) \<Rightarrow> Some v | _ \<Rightarrow> None))"

text \<open>Two devices of the proofs: the lexing of one line of text, and the tokens of a
  line followed by the tokens of the rest.\<close>

definition lex_line :: "lex_mode \<Rightarrow> string \<Rightarrow> tok list option" where
  "lex_line m l = lex_json m (l @ [CHR 0x0A])"

definition then_lex :: "tok list option \<Rightarrow> tok list option \<Rightarrow> tok list option" where
  "then_lex a b = (case a of None \<Rightarrow> None | Some x \<Rightarrow> map_option ((@) x) b)"

text \<open>When the snapshot text is well formed: the aircraft file name has no double
  quote, no backslash and no control character, and \<open>printf\<close> prints every float as
  a number (which it does for the finite ones).\<close>

definition literal_text :: "string \<Rightarrow> bool" where
  "literal_text s \<longleftrightarrow> s \<noteq> [] \<and> list_all (\<lambda>c. classify c = CLiteral) s"

definition plain_text :: "string \<Rightarrow> bool" where
  "plain_text s \<longleftrightarrow>
     list_all (\<lambda>c. classify c \<noteq> CQuote \<and> classify c \<noteq> CEscape \<and> \<not> ctrl_char c) s"

definition well_formatted :: "world \<Rightarrow> bool" where
  "well_formatted w \<longleftrightarrow> plain_text (acf_file w) \<and> (\<forall>p x. json_number (printf_f w p x))"

text \<open>The document the snapshot text denotes when it is well formatted: the fields in
  the order of the \<open>fprintf\<close> calls (lines 398 to 441).\<close>

definition snapshot_json :: "world \<Rightarrow> json" where
  "snapshot_json w =
     JObj
      [(''timestamp'', JNum (printf_d (sint (clock w)))),
       (''simulator'', JStr ''X-Plane''),
       (''aircraft'', JStr (acf_file w)),
       (''position'', JObj
          [(''latitude'', JNum (printf_f w 8 (getd w dr_lat))),
           (''longitude'', JNum (printf_f w 8 (getd w dr_lon))),
           (''altitude_msl_m'', JNum (printf_f w 2 (getd w dr_alt_msl))),
           (''altitude_agl_m'', JNum (printf_f w 2 (getf w dr_alt_agl)))]),
       (''orientation'', JObj
          [(''heading_mag'', JNum (printf_f w 2 (getf w dr_hdg_mag))),
           (''heading_true'', JNum (printf_f w 2 (getf w dr_hdg_true))),
           (''pitch'', JNum (printf_f w 2 (getf w dr_pitch))),
           (''roll'', JNum (printf_f w 2 (getf w dr_roll)))]),
       (''speed'', JObj
          [(''ground_speed_mps'', JNum (printf_f w 2 (getf w dr_gnd_speed))),
           (''ias_kts'', JNum (printf_f w 2 (getf w dr_ias))),
           (''tas_mps'', JNum (printf_f w 2 (getf w dr_tas))),
           (''vertical_speed_fpm'', JNum (printf_f w 2 (getf w dr_vs)))]),
       (''radios'', JObj
          [(''com1_hz'', JNum (printf_d (sint (geti w dr_com1_freq)))),
           (''com1_standby_hz'', JNum (printf_d (sint (geti w dr_com1_stdby)))),
           (''com2_hz'', JNum (printf_d (sint (geti w dr_com2_freq)))),
           (''com2_standby_hz'', JNum (printf_d (sint (geti w dr_com2_stdby)))),
           (''nav1_hz'', JNum (printf_d (sint (geti w dr_nav1_freq)))),
           (''nav2_hz'', JNum (printf_d (sint (geti w dr_nav2_freq))))]),
       (''transponder'', JObj
          [(''code'', JNum (printf_d (sint (geti w dr_xpdr_code)))),
           (''mode'', JNum (printf_d (sint (geti w dr_xpdr_mode))))]),
       (''autopilot'', JObj
          [(''altitude_ft'', JNum (printf_f w 0 (getf w dr_ap_alt))),
           (''heading'', JNum (printf_f w 0 (getf w dr_ap_hdg))),
           (''vs_fpm'', JNum (printf_f w 0 (getf w dr_ap_vs)))]),
       (''state'', JObj
          [(''on_ground'', JBool (geti w dr_on_ground \<noteq> 0)),
           (''paused'', JBool (geti w dr_paused \<noteq> 0))])]"

text \<open>The value at a path of keys, and the names of the top-level fields.\<close>

fun jget :: "string list \<Rightarrow> json \<Rightarrow> json option" where
  "jget [] v = Some v"
| "jget (k # ks) (JObj ms) = (case map_of ms k of None \<Rightarrow> None | Some v \<Rightarrow> jget ks v)"
| "jget (k # ks) _ = None"

fun top_level_fields :: "json \<Rightarrow> string list" where
  "top_level_fields (JObj ms) = map fst ms"
| "top_level_fields _ = []"

text \<open>Where the value of each DataRef variable goes in the document, in which format
  (\<open>%.8f\<close>, \<open>%.2f\<close>, \<open>%.0f\<close>, \<open>%d\<close>, or \<open>true\<close>/\<open>false\<close>), and the sentinel
  of the field: 0 in its format, or \<open>false\<close>.\<close>

fun field_path :: "dref \<Rightarrow> string list" where
  "field_path dr_lat = [''position'', ''latitude'']"
| "field_path dr_lon = [''position'', ''longitude'']"
| "field_path dr_alt_msl = [''position'', ''altitude_msl_m'']"
| "field_path dr_alt_agl = [''position'', ''altitude_agl_m'']"
| "field_path dr_hdg_mag = [''orientation'', ''heading_mag'']"
| "field_path dr_hdg_true = [''orientation'', ''heading_true'']"
| "field_path dr_pitch = [''orientation'', ''pitch'']"
| "field_path dr_roll = [''orientation'', ''roll'']"
| "field_path dr_gnd_speed = [''speed'', ''ground_speed_mps'']"
| "field_path dr_ias = [''speed'', ''ias_kts'']"
| "field_path dr_tas = [''speed'', ''tas_mps'']"
| "field_path dr_vs = [''speed'', ''vertical_speed_fpm'']"
| "field_path dr_on_ground = [''state'', ''on_ground'']"
| "field_path dr_paused = [''state'', ''paused'']"
| "field_path dr_com1_freq = [''radios'', ''com1_hz'']"
| "field_path dr_com1_stdby = [''radios'', ''com1_standby_hz'']"
| "field_path dr_com2_freq = [''radios'', ''com2_hz'']"
| "field_path dr_com2_stdby = [''radios'', ''com2_standby_hz'']"
| "field_path dr_nav1_freq = [''radios'', ''nav1_hz'']"
| "field_path dr_nav2_freq = [''radios'', ''nav2_hz'']"
| "field_path dr_xpdr_code = [''transponder'', ''code'']"
| "field_path dr_xpdr_mode = [''transponder'', ''mode'']"
| "field_path dr_ap_alt = [''autopilot'', ''altitude_ft'']"
| "field_path dr_ap_hdg = [''autopilot'', ''heading'']"
| "field_path dr_ap_vs = [''autopilot'', ''vs_fpm'']"

datatype field_kind = KFloat nat | KInteger | KFlag

fun kind_of :: "dref \<Rightarrow> field_kind" where
  "kind_of dr_lat = KFloat 8"
| "kind_of dr_lon = KFloat 8"
| "kind_of dr_ap_alt = KFloat 0"
| "kind_of dr_ap_hdg = KFloat 0"
| "kind_of dr_ap_vs = KFloat 0"
| "kind_of dr_on_ground = KFlag"
| "kind_of dr_paused = KFlag"
| "kind_of dr_com1_freq = KInteger"
| "kind_of dr_com1_stdby = KInteger"
| "kind_of dr_com2_freq = KInteger"
| "kind_of dr_com2_stdby = KInteger"
| "kind_of dr_nav1_freq = KInteger"
| "kind_of dr_nav2_freq = KInteger"
| "kind_of dr_xpdr_code = KInteger"
| "kind_of dr_xpdr_mode = KInteger"
| "kind_of _ = KFloat 2"

definition sentinel :: "world \<Rightarrow> dref \<Rightarrow> json" where
  "sentinel w d =
     (case kind_of d of
        KFloat p \<Rightarrow> JNum (printf_f w p 0)
      | KInteger \<Rightarrow> JNum ''0''
      | KFlag \<Rightarrow> JBool False)"

text \<open>The file at the publication path after a publish; and a world in which the
  variable \<open>d\<close> is bound to a handle \<open>h\<close> that reads 0.\<close>

definition published :: "world \<Rightarrow> string option" where
  "published w = fs (WriteTelemetryJSON w) (g_input_file w)"

definition bind_zero :: "dref \<Rightarrow> XPLMDataRef \<Rightarrow> world \<Rightarrow> world" where
  "bind_zero d h w =
     w\<lparr>drefs := (drefs w)(d \<mapsto> h), datad := (datad w)(h := 0),
       dataf := (dataf w)(h := 0), datai := (datai w)(h := 0)\<rparr>"

section \<open>Selectors: what each function changes\<close>

lemma Log_sel [simp]:
  "g_data_dir (Log l m w) = g_data_dir w"
  "g_input_file (Log l m w) = g_input_file w"
  "g_output_file (Log l m w) = g_output_file w"
  "g_log_file (Log l m w) = g_log_file w"
  "drefs (Log l m w) = drefs w"
  "g_flight_loop_id (Log l m w) = g_flight_loop_id w"
  "g_log_fp (Log l m w) = g_log_fp w"
  "find_dataref (Log l m w) = find_dataref w"
  "datad (Log l m w) = datad w"
  "dataf (Log l m w) = dataf w"
  "datai (Log l m w) = datai w"
  "acf_file (Log l m w) = acf_file w"
  "loops (Log l m w) = loops w"
  "next_loop (Log l m w) = next_loop w"
  "env_HOME (Log l m w) = env_HOME w"
  "pw_dir (Log l m w) = pw_dir w"
  "clock (Log l m w) = clock w"
  "fs (Log l m w) = fs w"
  "denied (Log l m w) = denied w"
  "disk_free (Log l m w) = disk_free w"
  "printf_f (Log l m w) = printf_f w"
  "log_lines (Log l m w) = (if g_log_fp w then log_lines w @ [(l, m)] else log_lines w)"
  "phases (Log l m w) = phases w"
  by (simp_all add: Log_def)

lemma LogOpen_sel [simp]:
  "g_data_dir (LogOpen w) = g_data_dir w"
  "g_input_file (LogOpen w) = g_input_file w"
  "g_output_file (LogOpen w) = g_output_file w"
  "g_log_file (LogOpen w) = g_log_file w"
  "drefs (LogOpen w) = drefs w"
  "g_flight_loop_id (LogOpen w) = g_flight_loop_id w"
  "g_log_fp (LogOpen w) = (g_log_fp w \<or> g_log_file w \<notin> denied w)"
  "find_dataref (LogOpen w) = find_dataref w"
  "datad (LogOpen w) = datad w"
  "dataf (LogOpen w) = dataf w"
  "datai (LogOpen w) = datai w"
  "acf_file (LogOpen w) = acf_file w"
  "loops (LogOpen w) = loops w"
  "next_loop (LogOpen w) = next_loop w"
  "env_HOME (LogOpen w) = env_HOME w"
  "pw_dir (LogOpen w) = pw_dir w"
  "clock (LogOpen w) = clock w"
  "fs (LogOpen w) = fs w"
  "denied (LogOpen w) = denied w"
  "disk_free (LogOpen w) = disk_free w"
  "printf_f (LogOpen w) = printf_f w"
  "log_lines (LogOpen w) = (if \<not> g_log_fp w \<and> g_log_file w \<notin> denied w
       then log_lines w @ [(''==='', ''StratusATC Session Started'')] else log_lines w)"
  "phases (LogOpen w) = phases w"
  by (simp_all add: LogOpen_def)

lemma LogClose_sel [simp]:
  "g_data_dir (LogClose w) = g_data_dir w"
  "g_input_file (LogClose w) = g_input_file w"
  "g_output_file (LogClose w) = g_output_file w"
  "g_log_file (LogClose w) = g_log_file w"
  "drefs (LogClose w) = drefs w"
  "g_flight_loop_id (LogClose w) = g_flight_loop_id w"
  "g_log_fp (LogClose w) = False"
  "find_dataref (LogClose w) = find_dataref w"
  "datad (LogClose w) = datad w"
  "dataf (LogClose w) = dataf w"
  "datai (LogClose w) = datai w"
  "acf_file (LogClose w) = acf_file w"
  "loops (LogClose w) = loops w"
  "next_loop (LogClose w) = next_loop w"
  "env_HOME (LogClose w) = env_HOME w"
  "pw_dir (LogClose w) = pw_dir w"
  "clock (LogClose w) = clock w"
  "fs (LogClose w) = fs w"
  "denied (LogClose w) = denied w"
  "disk_free (LogClose w) = disk_free w"
  "printf_f (LogClose w) = printf_f w"
  "log_lines (LogClose w) = (if g_log_fp w then log_lines w @ [(''==='', ''Session Ended'')] else log_lines w)"
  "phases (LogClose w) = phases w"
  by (simp_all add: LogClose_def)

lemma InitFilePaths_sel [simp]:
  "g_data_dir (InitFilePaths w) = (case (case env_HOME w of Some h \<Rightarrow> Some h | None \<Rightarrow> pw_dir w) of
        Some h \<Rightarrow> snprintf 512 (h @ ''/.local/share/StratusATC'')
      | None \<Rightarrow> snprintf 512 ''/tmp/StratusATC'')"
  "g_input_file (InitFilePaths w) = snprintf 1024 (g_data_dir (InitFilePaths w) @ ''/simAPI_input.json'')"
  "g_output_file (InitFilePaths w) = snprintf 1024 (g_data_dir (InitFilePaths w) @ ''/simAPI_output.jsonl'')"
  "g_log_file (InitFilePaths w) = snprintf 1024 (g_data_dir (InitFilePaths w) @ ''/stratus_atc.log'')"
  "drefs (InitFilePaths w) = drefs w"
  "g_flight_loop_id (InitFilePaths w) = g_flight_loop_id w"
  "g_log_fp (InitFilePaths w) = g_log_fp w"
  "find_dataref (InitFilePaths w) = find_dataref w"
  "datad (InitFilePaths w) = datad w"
  "dataf (InitFilePaths w) = dataf w"
  "datai (InitFilePaths w) = datai w"
  "acf_file (InitFilePaths w) = acf_file w"
  "loops (InitFilePaths w) = loops w"
  "next_loop (InitFilePaths w) = next_loop w"
  "env_HOME (InitFilePaths w) = env_HOME w"
  "pw_dir (InitFilePaths w) = pw_dir w"
  "clock (InitFilePaths w) = clock w"
  "fs (InitFilePaths w) = fs w"
  "denied (InitFilePaths w) = denied w"
  "disk_free (InitFilePaths w) = disk_free w"
  "printf_f (InitFilePaths w) = printf_f w"
  "log_lines (InitFilePaths w) = log_lines w"
  "phases (InitFilePaths w) = phases w"
  by (simp_all add: InitFilePaths_def Let_def)

lemma InitDataRefs_sel [simp]:
  "g_data_dir (InitDataRefs w) = g_data_dir w"
  "g_input_file (InitDataRefs w) = g_input_file w"
  "g_output_file (InitDataRefs w) = g_output_file w"
  "g_log_file (InitDataRefs w) = g_log_file w"
  "drefs (InitDataRefs w) = (\<lambda>d. find_dataref w (dataref_name d))"
  "g_flight_loop_id (InitDataRefs w) = g_flight_loop_id w"
  "g_log_fp (InitDataRefs w) = g_log_fp w"
  "find_dataref (InitDataRefs w) = find_dataref w"
  "datad (InitDataRefs w) = datad w"
  "dataf (InitDataRefs w) = dataf w"
  "datai (InitDataRefs w) = datai w"
  "acf_file (InitDataRefs w) = acf_file w"
  "loops (InitDataRefs w) = loops w"
  "next_loop (InitDataRefs w) = next_loop w"
  "env_HOME (InitDataRefs w) = env_HOME w"
  "pw_dir (InitDataRefs w) = pw_dir w"
  "clock (InitDataRefs w) = clock w"
  "fs (InitDataRefs w) = fs w"
  "denied (InitDataRefs w) = denied w"
  "disk_free (InitDataRefs w) = disk_free w"
  "printf_f (InitDataRefs w) = printf_f w"
  "log_lines (InitDataRefs w) = (if g_log_fp w then log_lines w @ [(''INFO'', ''DataRefs initialized'')]
       else log_lines w)"
  "phases (InitDataRefs w) = phases w"
  by (simp_all add: InitDataRefs_def)

lemma XPLMCreateFlightLoop_sel [simp]:
  "g_data_dir (fst (XPLMCreateFlightLoop w)) = g_data_dir w"
  "g_input_file (fst (XPLMCreateFlightLoop w)) = g_input_file w"
  "g_output_file (fst (XPLMCreateFlightLoop w)) = g_output_file w"
  "g_log_file (fst (XPLMCreateFlightLoop w)) = g_log_file w"
  "drefs (fst (XPLMCreateFlightLoop w)) = drefs w"
  "g_flight_loop_id (fst (XPLMCreateFlightLoop w)) = g_flight_loop_id w"
  "g_log_fp (fst (XPLMCreateFlightLoop w)) = g_log_fp w"
  "find_dataref (fst (XPLMCreateFlightLoop w)) = find_dataref w"
  "datad (fst (XPLMCreateFlightLoop w)) = datad w"
  "dataf (fst (XPLMCreateFlightLoop w)) = dataf w"
  "datai (fst (XPLMCreateFlightLoop w)) = datai w"
  "acf_file (fst (XPLMCreateFlightLoop w)) = acf_file w"
  "loops (fst (XPLMCreateFlightLoop w)) = (loops w)(next_loop w \<mapsto> (0, 0))"
  "next_loop (fst (XPLMCreateFlightLoop w)) = Suc (next_loop w)"
  "env_HOME (fst (XPLMCreateFlightLoop w)) = env_HOME w"
  "pw_dir (fst (XPLMCreateFlightLoop w)) = pw_dir w"
  "clock (fst (XPLMCreateFlightLoop w)) = clock w"
  "fs (fst (XPLMCreateFlightLoop w)) = fs w"
  "denied (fst (XPLMCreateFlightLoop w)) = denied w"
  "disk_free (fst (XPLMCreateFlightLoop w)) = disk_free w"
  "printf_f (fst (XPLMCreateFlightLoop w)) = printf_f w"
  "log_lines (fst (XPLMCreateFlightLoop w)) = log_lines w"
  "phases (fst (XPLMCreateFlightLoop w)) = phases w"
  by (simp_all add: XPLMCreateFlightLoop_def)

lemma XPLMCreateFlightLoop_id [simp]: "snd (XPLMCreateFlightLoop w) = next_loop w"
  by (simp add: XPLMCreateFlightLoop_def)

lemma XPLMDestroyFlightLoop_sel [simp]:
  "g_data_dir (XPLMDestroyFlightLoop i w) = g_data_dir w"
  "g_input_file (XPLMDestroyFlightLoop i w) = g_input_file w"
  "g_output_file (XPLMDestroyFlightLoop i w) = g_output_file w"
  "g_log_file (XPLMDestroyFlightLoop i w) = g_log_file w"
  "drefs (XPLMDestroyFlightLoop i w) = drefs w"
  "g_flight_loop_id (XPLMDestroyFlightLoop i w) = g_flight_loop_id w"
  "g_log_fp (XPLMDestroyFlightLoop i w) = g_log_fp w"
  "find_dataref (XPLMDestroyFlightLoop i w) = find_dataref w"
  "datad (XPLMDestroyFlightLoop i w) = datad w"
  "dataf (XPLMDestroyFlightLoop i w) = dataf w"
  "datai (XPLMDestroyFlightLoop i w) = datai w"
  "acf_file (XPLMDestroyFlightLoop i w) = acf_file w"
  "loops (XPLMDestroyFlightLoop i w) = (loops w)(i := None)"
  "next_loop (XPLMDestroyFlightLoop i w) = next_loop w"
  "env_HOME (XPLMDestroyFlightLoop i w) = env_HOME w"
  "pw_dir (XPLMDestroyFlightLoop i w) = pw_dir w"
  "clock (XPLMDestroyFlightLoop i w) = clock w"
  "fs (XPLMDestroyFlightLoop i w) = fs w"
  "denied (XPLMDestroyFlightLoop i w) = denied w"
  "disk_free (XPLMDestroyFlightLoop i w) = disk_free w"
  "printf_f (XPLMDestroyFlightLoop i w) = printf_f w"
  "log_lines (XPLMDestroyFlightLoop i w) = log_lines w"
  "phases (XPLMDestroyFlightLoop i w) = phases w"
  by (simp_all add: XPLMDestroyFlightLoop_def)

lemma XPLMScheduleFlightLoop_sel [simp]:
  "g_data_dir (XPLMScheduleFlightLoop i t r w) = g_data_dir w"
  "g_input_file (XPLMScheduleFlightLoop i t r w) = g_input_file w"
  "g_output_file (XPLMScheduleFlightLoop i t r w) = g_output_file w"
  "g_log_file (XPLMScheduleFlightLoop i t r w) = g_log_file w"
  "drefs (XPLMScheduleFlightLoop i t r w) = drefs w"
  "g_flight_loop_id (XPLMScheduleFlightLoop i t r w) = g_flight_loop_id w"
  "g_log_fp (XPLMScheduleFlightLoop i t r w) = g_log_fp w"
  "find_dataref (XPLMScheduleFlightLoop i t r w) = find_dataref w"
  "datad (XPLMScheduleFlightLoop i t r w) = datad w"
  "dataf (XPLMScheduleFlightLoop i t r w) = dataf w"
  "datai (XPLMScheduleFlightLoop i t r w) = datai w"
  "acf_file (XPLMScheduleFlightLoop i t r w) = acf_file w"
  "loops (XPLMScheduleFlightLoop i t r w) = (if i \<in> dom (loops w) then (loops w)(i \<mapsto> (t, r)) else loops w)"
  "next_loop (XPLMScheduleFlightLoop i t r w) = next_loop w"
  "env_HOME (XPLMScheduleFlightLoop i t r w) = env_HOME w"
  "pw_dir (XPLMScheduleFlightLoop i t r w) = pw_dir w"
  "clock (XPLMScheduleFlightLoop i t r w) = clock w"
  "fs (XPLMScheduleFlightLoop i t r w) = fs w"
  "denied (XPLMScheduleFlightLoop i t r w) = denied w"
  "disk_free (XPLMScheduleFlightLoop i t r w) = disk_free w"
  "printf_f (XPLMScheduleFlightLoop i t r w) = printf_f w"
  "log_lines (XPLMScheduleFlightLoop i t r w) = log_lines w"
  "phases (XPLMScheduleFlightLoop i t r w) = phases w"
  by (simp_all add: XPLMScheduleFlightLoop_def)

lemma XPluginStart_sel [simp]:
  "g_data_dir (fst (XPluginStart w)) = g_data_dir (InitFilePaths w)"
  "g_input_file (fst (XPluginStart w)) = g_input_file (InitFilePaths w)"
  "g_output_file (fst (XPluginStart w)) = g_output_file (InitFilePaths w)"
  "g_log_file (fst (XPluginStart w)) = g_log_file (InitFilePaths w)"
  "drefs (fst (XPluginStart w)) = (\<lambda>d. find_dataref w (dataref_name d))"
  "g_flight_loop_id (fst (XPluginStart w)) = Some (next_loop w)"
  "g_log_fp (fst (XPluginStart w)) = (g_log_fp w \<or> g_log_file (InitFilePaths w) \<notin> denied w)"
  "find_dataref (fst (XPluginStart w)) = find_dataref w"
  "datad (fst (XPluginStart w)) = datad w"
  "dataf (fst (XPluginStart w)) = dataf w"
  "datai (fst (XPluginStart w)) = datai w"
  "acf_file (fst (XPluginStart w)) = acf_file w"
  "loops (fst (XPluginStart w)) = (loops w)(next_loop w \<mapsto> (0, 0))"
  "next_loop (fst (XPluginStart w)) = Suc (next_loop w)"
  "env_HOME (fst (XPluginStart w)) = env_HOME w"
  "pw_dir (fst (XPluginStart w)) = pw_dir w"
  "clock (fst (XPluginStart w)) = clock w"
  "fs (fst (XPluginStart w)) = fs w"
  "denied (fst (XPluginStart w)) = denied w"
  "disk_free (fst (XPluginStart w)) = disk_free w"
  "printf_f (fst (XPluginStart w)) = printf_f w"
  "log_lines (fst (XPluginStart w)) = (if g_log_fp w \<or> g_log_file (InitFilePaths w) \<notin> denied w
       then log_lines w @ (if g_log_fp w then [] else [(''==='', ''StratusATC Session Started'')]) @
         [(''INFO'', ''Plugin starting (version 0.2.0)''),
          (''INFO'', ''Data directory: '' @ g_data_dir (InitFilePaths w)),
          (''INFO'', ''DataRefs initialized''),
          (''INFO'', ''Plugin started successfully'')]
       else log_lines w)"
  "phases (fst (XPluginStart w)) = phases w"
  by (simp_all add: XPluginStart_def Let_def PLUGIN_VERSION_def split_beta del: InitFilePaths_sel(1))

lemma XPluginStop_sel [simp]:
  "g_data_dir (XPluginStop w) = g_data_dir w"
  "g_input_file (XPluginStop w) = g_input_file w"
  "g_output_file (XPluginStop w) = g_output_file w"
  "g_log_file (XPluginStop w) = g_log_file w"
  "drefs (XPluginStop w) = drefs w"
  "g_flight_loop_id (XPluginStop w) = None"
  "g_log_fp (XPluginStop w) = False"
  "find_dataref (XPluginStop w) = find_dataref w"
  "datad (XPluginStop w) = datad w"
  "dataf (XPluginStop w) = dataf w"
  "datai (XPluginStop w) = datai w"
  "acf_file (XPluginStop w) = acf_file w"
  "loops (XPluginStop w) = (case g_flight_loop_id w of Some i \<Rightarrow> (loops w)(i := None) | None \<Rightarrow> loops w)"
  "next_loop (XPluginStop w) = next_loop w"
  "env_HOME (XPluginStop w) = env_HOME w"
  "pw_dir (XPluginStop w) = pw_dir w"
  "clock (XPluginStop w) = clock w"
  "fs (XPluginStop w) = fs w"
  "denied (XPluginStop w) = denied w"
  "disk_free (XPluginStop w) = disk_free w"
  "printf_f (XPluginStop w) = printf_f w"
  "log_lines (XPluginStop w) = (if g_log_fp w
       then log_lines w @ [(''INFO'', ''Plugin stopped''), (''==='', ''Session Ended'')]
       else log_lines w)"
  "phases (XPluginStop w) = phases w"
  by (simp_all add: XPluginStop_def Let_def split: option.splits)

lemma XPluginEnable_sel [simp]:
  "g_data_dir (fst (XPluginEnable w)) = g_data_dir w"
  "g_input_file (fst (XPluginEnable w)) = g_input_file w"
  "g_output_file (fst (XPluginEnable w)) = g_output_file w"
  "g_log_file (fst (XPluginEnable w)) = g_log_file w"
  "drefs (fst (XPluginEnable w)) = drefs w"
  "g_flight_loop_id (fst (XPluginEnable w)) = g_flight_loop_id w"
  "g_log_fp (fst (XPluginEnable w)) = g_log_fp w"
  "find_dataref (fst (XPluginEnable w)) = find_dataref w"
  "datad (fst (XPluginEnable w)) = datad w"
  "dataf (fst (XPluginEnable w)) = dataf w"
  "datai (fst (XPluginEnable w)) = datai w"
  "acf_file (fst (XPluginEnable w)) = acf_file w"
  "loops (fst (XPluginEnable w)) = (case g_flight_loop_id w of
        Some i \<Rightarrow> if i \<in> dom (loops w) then (loops w)(i \<mapsto> (1, 1)) else loops w
      | None \<Rightarrow> loops w)"
  "next_loop (fst (XPluginEnable w)) = next_loop w"
  "env_HOME (fst (XPluginEnable w)) = env_HOME w"
  "pw_dir (fst (XPluginEnable w)) = pw_dir w"
  "clock (fst (XPluginEnable w)) = clock w"
  "fs (fst (XPluginEnable w)) = fs w"
  "denied (fst (XPluginEnable w)) = denied w"
  "disk_free (fst (XPluginEnable w)) = disk_free w"
  "printf_f (fst (XPluginEnable w)) = printf_f w"
  "log_lines (fst (XPluginEnable w)) = (if g_log_fp w
       then log_lines w @ [(''INFO'', ''Plugin enabled - telemetry streaming started'')]
       else log_lines w)"
  "phases (fst (XPluginEnable w)) = phases w"
  by (simp_all add: XPluginEnable_def Let_def split: option.splits)

lemma XPluginDisable_sel [simp]:
  "g_data_dir (XPluginDisable w) = g_data_dir w"
  "g_input_file (XPluginDisable w) = g_input_file w"
  "g_output_file (XPluginDisable w) = g_output_file w"
  "g_log_file (XPluginDisable w) = g_log_file w"
  "drefs (XPluginDisable w) = drefs w"
  "g_flight_loop_id (XPluginDisable w) = g_flight_loop_id w"
  "g_log_fp (XPluginDisable w) = g_log_fp w"
  "find_dataref (XPluginDisable w) = find_dataref w"
  "datad (XPluginDisable w) = datad w"
  "dataf (XPluginDisable w) = dataf w"
  "datai (XPluginDisable w) = datai w"
  "acf_file (XPluginDisable w) = acf_file w"
  "loops (XPluginDisable w) = (case g_flight_loop_id w of
        Some i \<Rightarrow> if i \<in> dom (loops w) then (loops w)(i \<mapsto> (0, 0)) else loops w
      | None \<Rightarrow> loops w)"
  "next_loop (XPluginDisable w) = next_loop w"
  "env_HOME (XPluginDisable w) = env_HOME w"
  "pw_dir (XPluginDisable w) = pw_dir w"
  "clock (XPluginDisable w) = clock w"
  "fs (XPluginDisable w) = fs w"
  "denied (XPluginDisable w) = denied w"
  "disk_free (XPluginDisable w) = disk_free w"
  "printf_f (XPluginDisable w) = printf_f w"
  "log_lines (XPluginDisable w) = (if g_log_fp w
       then log_lines w @ [(''INFO'', ''Plugin disabled - telemetry streaming stopped'')]
       else log_lines w)"
  "phases (XPluginDisable w) = phases w"
  by (simp_all add: XPluginDisable_def Let_def split: option.splits)

subsection \<open>What the snapshot text depends on\<close>

lemma telemetry_json_cong:
  assumes "clock w' = clock w" "acf_file w' = acf_file w" "printf_f w' = printf_f w"
    "drefs w' = drefs w" "datad w' = datad w" "dataf w' = dataf w" "datai w' = datai w"
  shows "telemetry_json w' = telemetry_json w"
proof -
  have "getd w' d = getd w d" "getf w' d = getf w d" "geti w' d = geti w d" for d
    using assms by (simp_all add: getd_def getf_def geti_def split: option.splits)
  with assms show ?thesis by (simp add: telemetry_json_def)
qed

lemma telemetry_json_fs [simp]: "telemetry_json (w\<lparr>fs := f\<rparr>) = telemetry_json w"
  by (rule telemetry_json_cong) simp_all

lemma telemetry_json_phases [simp]: "telemetry_json (w\<lparr>phases := f\<rparr>) = telemetry_json w"
  by (rule telemetry_json_cong) simp_all

lemma tmp_file_phases [simp]: "tmp_file (w\<lparr>phases := f\<rparr>) = tmp_file w"
  by (simp add: tmp_file_def)

subsection \<open>The \<open>fprintf\<close> sequence\<close>

lemma fprintf_seq_frame:
  "v \<in> set (fprintf_seq p ss w) \<Longrightarrow> \<exists>f n. v = w\<lparr>fs := f, disk_free := n\<rparr>"
proof (induction ss arbitrary: w)
  case Nil
  then show ?case by simp
next
  case (Cons s ss)
  let ?u = "fprintf p s w"
  have u: "?u = w\<lparr>fs := fs ?u, disk_free := disk_free ?u\<rparr>"
    by (simp add: fprintf_def Let_def)
  from Cons.prems have "v = ?u \<or> v \<in> set (fprintf_seq p ss ?u)"
    by (simp add: Let_def)
  then show ?case
  proof
    assume "v = ?u" with u show ?thesis by metis
  next
    assume "v \<in> set (fprintf_seq p ss ?u)"
    then obtain f n where "v = ?u\<lparr>fs := f, disk_free := n\<rparr>"
      using Cons.IH by blast
    then have "v = w\<lparr>fs := f, disk_free := n\<rparr>"
      by (subst (asm) u) simp
    then show ?thesis by blast
  qed
qed

lemma fprintf_seq_other:
  "v \<in> set (fprintf_seq path ss w) \<Longrightarrow> p \<noteq> path \<Longrightarrow> fs v p = fs w p"
  by (induction ss arbitrary: w) (auto simp: Let_def fprintf_def)

lemma fprintf_seq_full:
  "length (concat ss) \<le> disk_free w \<Longrightarrow> fs w path = Some c \<Longrightarrow>
   fs (last (w # fprintf_seq path ss w)) path = Some (c @ concat ss)"
proof (induction ss arbitrary: w c)
  case Nil
  then show ?case by simp
next
  case (Cons s ss)
  let ?u = "fprintf path s w"
  from Cons.prems have "length s \<le> disk_free w" by simp
  then have u: "fs ?u path = Some (c @ s)" "disk_free ?u = disk_free w - length s"
    using Cons.prems by (simp_all add: fprintf_def Let_def)
  with Cons.prems have "length (concat ss) \<le> disk_free ?u" by simp
  from Cons.IH [OF this u(1)] show ?case by (simp add: Let_def)
qed

text \<open>With a short disk the side file ends as a prefix of the text: the first
  \<open>disk_free\<close> bytes.\<close>

lemma fprintf_seq_short:
  "fs w path = Some c \<Longrightarrow>
   fs (last (w # fprintf_seq path ss w)) path = Some (c @ take (disk_free w) (concat ss))"
proof (induction ss arbitrary: w c)
  case Nil
  then show ?case by simp
next
  case (Cons s ss)
  let ?u = "fprintf path s w"
  have u: "fs ?u path = Some (c @ take (disk_free w) s)"
    "disk_free ?u = disk_free w - length (take (disk_free w) s)"
    using Cons.prems by (simp_all add: fprintf_def Let_def)
  have "take (disk_free w) s @ take (disk_free w - length (take (disk_free w) s)) (concat ss)
      = take (disk_free w) (s @ concat ss)"
    by (cases "disk_free w \<le> length s") (simp_all add: min_def)
  with Cons.IH [OF u(1)] u(2) show ?case by (simp add: Let_def)
qed

subsection \<open>The frame of \<open>WriteTelemetryJSON\<close>\<close>

lemma trace_denied:
  "tmp_file w \<in> denied w \<Longrightarrow>
   WriteTelemetryJSON_trace w =
     [LOG_ERROR (''Failed to open temp file for writing: '' @ tmp_file w) w]"
  by (simp add: WriteTelemetryJSON_trace_def fopen_w_def)

lemma trace_open:
  assumes "tmp_file w \<notin> denied w"
  shows "WriteTelemetryJSON_trace w =
    ((w\<lparr>fs := (fs w)(tmp_file w \<mapsto> [])\<rparr>) #
       fprintf_seq (tmp_file w) (telemetry_json w) (w\<lparr>fs := (fs w)(tmp_file w \<mapsto> [])\<rparr>)) @
    [rename_file (tmp_file w) (g_input_file w)
       (last ((w\<lparr>fs := (fs w)(tmp_file w \<mapsto> [])\<rparr>) #
          fprintf_seq (tmp_file w) (telemetry_json w) (w\<lparr>fs := (fs w)(tmp_file w \<mapsto> [])\<rparr>)))]"
  using assms by (simp add: WriteTelemetryJSON_trace_def fopen_w_def Let_def)

lemma trace_nonempty: "WriteTelemetryJSON_trace w \<noteq> []"
  by (cases "tmp_file w \<in> denied w") (simp_all add: trace_denied trace_open)

lemma trace_frame_open:
  assumes "tmp_file w \<notin> denied w" and "v \<in> set (WriteTelemetryJSON_trace w)"
  shows "\<exists>f n. v = w\<lparr>fs := f, disk_free := n\<rparr>"
proof -
  let ?w1 = "w\<lparr>fs := (fs w)(tmp_file w \<mapsto> [])\<rparr>"
  let ?ws = "?w1 # fprintf_seq (tmp_file w) (telemetry_json w) ?w1"
  have mid: "\<exists>f n. u = w\<lparr>fs := f, disk_free := n\<rparr>" if "u \<in> set ?ws" for u
  proof -
    from that have "u = ?w1 \<or> u \<in> set (fprintf_seq (tmp_file w) (telemetry_json w) ?w1)"
      by simp
    then show ?thesis
    proof
      assume "u = ?w1"
      then have "u = w\<lparr>fs := (fs w)(tmp_file w \<mapsto> []), disk_free := disk_free w\<rparr>" by simp
      then show ?thesis by blast
    next
      assume "u \<in> set (fprintf_seq (tmp_file w) (telemetry_json w) ?w1)"
      then obtain f n where "u = ?w1\<lparr>fs := f, disk_free := n\<rparr>"
        using fprintf_seq_frame by blast
      then have "u = w\<lparr>fs := f, disk_free := n\<rparr>" by simp
      then show ?thesis by blast
    qed
  qed
  from assms have "v \<in> set ?ws \<or> v = rename_file (tmp_file w) (g_input_file w) (last ?ws)"
    unfolding trace_open [OF assms(1)] by auto
  then show ?thesis
  proof
    assume "v \<in> set ?ws"
    then show ?thesis using mid by blast
  next
    assume r: "v = rename_file (tmp_file w) (g_input_file w) (last ?ws)"
    have "last ?ws \<in> set ?ws" by (rule last_in_set) simp
    then obtain f n where l: "last ?ws = w\<lparr>fs := f, disk_free := n\<rparr>" using mid by blast
    have "v = w\<lparr>fs := fs v, disk_free := n\<rparr>"
      unfolding r l by (simp add: rename_file_def split: option.splits)
    then show ?thesis by blast
  qed
qed

lemma WriteTelemetryJSON_denied:
  "tmp_file w \<in> denied w \<Longrightarrow>
   WriteTelemetryJSON w = LOG_ERROR (''Failed to open temp file for writing: '' @ tmp_file w) w"
  by (simp add: WriteTelemetryJSON_def trace_denied)

lemma WriteTelemetryJSON_open:
  "tmp_file w \<notin> denied w \<Longrightarrow> \<exists>f n. WriteTelemetryJSON w = w\<lparr>fs := f, disk_free := n\<rparr>"
  unfolding WriteTelemetryJSON_def using trace_frame_open trace_nonempty last_in_set by blast

lemma WriteTelemetryJSON_sel [simp]:
  "g_data_dir (WriteTelemetryJSON w) = g_data_dir w"
  "g_input_file (WriteTelemetryJSON w) = g_input_file w"
  "g_output_file (WriteTelemetryJSON w) = g_output_file w"
  "g_log_file (WriteTelemetryJSON w) = g_log_file w"
  "drefs (WriteTelemetryJSON w) = drefs w"
  "g_flight_loop_id (WriteTelemetryJSON w) = g_flight_loop_id w"
  "g_log_fp (WriteTelemetryJSON w) = g_log_fp w"
  "find_dataref (WriteTelemetryJSON w) = find_dataref w"
  "datad (WriteTelemetryJSON w) = datad w"
  "dataf (WriteTelemetryJSON w) = dataf w"
  "datai (WriteTelemetryJSON w) = datai w"
  "acf_file (WriteTelemetryJSON w) = acf_file w"
  "loops (WriteTelemetryJSON w) = loops w"
  "next_loop (WriteTelemetryJSON w) = next_loop w"
  "env_HOME (WriteTelemetryJSON w) = env_HOME w"
  "pw_dir (WriteTelemetryJSON w) = pw_dir w"
  "clock (WriteTelemetryJSON w) = clock w"
  "denied (WriteTelemetryJSON w) = denied w"
  "printf_f (WriteTelemetryJSON w) = printf_f w"
  "phases (WriteTelemetryJSON w) = phases w"
  "log_lines (WriteTelemetryJSON w) =
     (if tmp_file w \<in> denied w \<and> g_log_fp w
      then log_lines w @ [(''ERROR'', ''Failed to open temp file for writing: '' @ tmp_file w)]
      else log_lines w)"
proof -
  have *: "tmp_file w \<in> denied w \<and>
      WriteTelemetryJSON w =
        LOG_ERROR (''Failed to open temp file for writing: '' @ tmp_file w) w \<or>
      tmp_file w \<notin> denied w \<and> (\<exists>f n. WriteTelemetryJSON w = w\<lparr>fs := f, disk_free := n\<rparr>)"
    using WriteTelemetryJSON_open WriteTelemetryJSON_denied by blast
  show
    "g_data_dir (WriteTelemetryJSON w) = g_data_dir w"
    "g_input_file (WriteTelemetryJSON w) = g_input_file w"
    "g_output_file (WriteTelemetryJSON w) = g_output_file w"
    "g_log_file (WriteTelemetryJSON w) = g_log_file w"
    "drefs (WriteTelemetryJSON w) = drefs w"
    "g_flight_loop_id (WriteTelemetryJSON w) = g_flight_loop_id w"
    "g_log_fp (WriteTelemetryJSON w) = g_log_fp w"
    "find_dataref (WriteTelemetryJSON w) = find_dataref w"
    "datad (WriteTelemetryJSON w) = datad w"
    "dataf (WriteTelemetryJSON w) = dataf w"
    "datai (WriteTelemetryJSON w) = datai w"
    "acf_file (WriteTelemetryJSON w) = acf_file w"
    "loops (WriteTelemetryJSON w) = loops w"
    "next_loop (WriteTelemetryJSON w) = next_loop w"
    "env_HOME (WriteTelemetryJSON w) = env_HOME w"
    "pw_dir (WriteTelemetryJSON w) = pw_dir w"
    "clock (WriteTelemetryJSON w) = clock w"
    "denied (WriteTelemetryJSON w) = denied w"
    "printf_f (WriteTelemetryJSON w) = printf_f w"
    "phases (WriteTelemetryJSON w) = phases w"
    "log_lines (WriteTelemetryJSON w) =
       (if tmp_file w \<in> denied w \<and> g_log_fp w
        then log_lines w @ [(''ERROR'', ''Failed to open temp file for writing: '' @ tmp_file w)]
        else log_lines w)"
    using * by auto
qed

lemma ReadCommandsJSONL_id [simp]: "ReadCommandsJSONL w = w"
  by (simp add: ReadCommandsJSONL_def)

lemma FlightLoopCallback_world:
  "fst (FlightLoopCallback w) =
     (WriteTelemetryJSON (w\<lparr>phases := phases w @ [Sampling]\<rparr>))
       \<lparr>phases := phases w @ [Sampling, Draining]\<rparr>"
  by (simp add: FlightLoopCallback_def Let_def)

lemma FlightLoopCallback_sel [simp]:
  "g_data_dir (fst (FlightLoopCallback w)) = g_data_dir w"
  "g_input_file (fst (FlightLoopCallback w)) = g_input_file w"
  "g_output_file (fst (FlightLoopCallback w)) = g_output_file w"
  "g_log_file (fst (FlightLoopCallback w)) = g_log_file w"
  "drefs (fst (FlightLoopCallback w)) = drefs w"
  "g_flight_loop_id (fst (FlightLoopCallback w)) = g_flight_loop_id w"
  "g_log_fp (fst (FlightLoopCallback w)) = g_log_fp w"
  "find_dataref (fst (FlightLoopCallback w)) = find_dataref w"
  "datad (fst (FlightLoopCallback w)) = datad w"
  "dataf (fst (FlightLoopCallback w)) = dataf w"
  "datai (fst (FlightLoopCallback w)) = datai w"
  "acf_file (fst (FlightLoopCallback w)) = acf_file w"
  "loops (fst (FlightLoopCallback w)) = loops w"
  "next_loop (fst (FlightLoopCallback w)) = next_loop w"
  "env_HOME (fst (FlightLoopCallback w)) = env_HOME w"
  "pw_dir (fst (FlightLoopCallback w)) = pw_dir w"
  "clock (fst (FlightLoopCallback w)) = clock w"
  "denied (fst (FlightLoopCallback w)) = denied w"
  "printf_f (fst (FlightLoopCallback w)) = printf_f w"
  "phases (fst (FlightLoopCallback w)) = phases w @ [Sampling, Draining]"
  "snd (FlightLoopCallback w) = 1"
  by (simp_all add: FlightLoopCallback_def Let_def)

subsection \<open>The paths\<close>

lemma length_snprintf: "length (snprintf n s) \<le> length s"
  by (simp add: snprintf_def)

lemma length_snprintf_bound: "length (snprintf n s) \<le> n - 1"
  by (simp add: snprintf_def)

lemma InitFilePaths_inv: "paths_inv (InitFilePaths w)"
proof -
  define dir where "dir = g_data_dir (InitFilePaths w)"
  have "\<exists>s. dir = snprintf 512 s"
    by (auto simp: dir_def split: option.splits)
  then have d: "length dir \<le> 511"
    using length_snprintf_bound [of 512] by auto
  have g: "g_input_file (InitFilePaths w) = snprintf 1024 (dir @ ''/simAPI_input.json'')"
    by (simp add: dir_def del: InitFilePaths_sel(1))
  have "length (snprintf 1024 (dir @ ''/simAPI_input.json'')) \<le> length dir + 18"
    using length_snprintf [of 1024 "dir @ ''/simAPI_input.json''"] by simp
  with d show ?thesis unfolding paths_inv_def g by linarith
qed

lemma call_inv: "paths_inv w \<Longrightarrow> paths_inv (call c w)"
  using InitFilePaths_inv [of w] by (cases c) (simp_all add: paths_inv_def XPluginReceiveMessage_def)

lemma reachable_paths_inv: "reachable w \<Longrightarrow> paths_inv w"
proof (induction rule: reachable.induct)
  case (loaded w)
  then show ?case by (simp add: fresh_globals_def paths_inv_def)
next
  case (called w c)
  then show ?case by (simp add: call_inv)
next
  case (environment w w')
  then show ?case by (simp add: same_globals_def paths_inv_def)
qed

lemma tmp_file_exact: "paths_inv w \<Longrightarrow> tmp_file w = g_input_file w @ ''.tmp''"
  by (simp add: paths_inv_def tmp_file_def snprintf_def)

subsection \<open>The concrete worlds\<close>

lemma boot_world_sel [simp]:
  "g_data_dir boot_world = []" "g_input_file boot_world = []" "g_output_file boot_world = []"
  "g_log_file boot_world = []" "drefs boot_world = (\<lambda>d. None)"
  "g_flight_loop_id boot_world = None" "g_log_fp boot_world = False"
  "find_dataref boot_world =
     (\<lambda>s. if s = ''sim/cockpit2/radios/actuators/com1_frequency_hz_833'' then Some 7
          else if s = ''sim/flightmodel/failures/onground_any'' then Some 3 else None)"
  "datad boot_world = (\<lambda>h. 0)" "dataf boot_world = (\<lambda>h. 0)"
  "datai boot_world = (\<lambda>h. if h = 7 then 118325000 else 1)"
  "acf_file boot_world = ''B738.acf''" "loops boot_world = Map.empty"
  "next_loop boot_world = 1" "env_HOME boot_world = Some ''/home/pilot''"
  "pw_dir boot_world = None" "clock boot_world = 1000" "fs boot_world = Map.empty"
  "denied boot_world = {}" "disk_free boot_world = 4096"
  "printf_f boot_world = (\<lambda>p x. zero_text p)" "log_lines boot_world = []"
  "phases boot_world = []"
  by (simp_all add: boot_world_def)

lemma boot_world_fresh: "fresh_globals boot_world"
  by (simp add: fresh_globals_def)

lemma running_world_reachable: "reachable running_world"
  unfolding running_world_def calls.simps
  by (intro reachable.called reachable.loaded boot_world_fresh)

lemma running_world_sel [simp]:
  "g_data_dir running_world = ''/home/pilot/.local/share/StratusATC''"
  "g_input_file running_world = ''/home/pilot/.local/share/StratusATC/simAPI_input.json''"
  "g_output_file running_world = ''/home/pilot/.local/share/StratusATC/simAPI_output.jsonl''"
  "g_log_file running_world = ''/home/pilot/.local/share/StratusATC/stratus_atc.log''"
  "g_flight_loop_id running_world = Some 1" "g_log_fp running_world = True"
  "find_dataref running_world = find_dataref boot_world"
  "datad running_world = (\<lambda>h. 0)" "dataf running_world = (\<lambda>h. 0)"
  "datai running_world = (\<lambda>h. if h = 7 then 118325000 else 1)"
  "acf_file running_world = ''B738.acf''" "loops running_world = [1 \<mapsto> (1, 1)]"
  "next_loop running_world = 2" "env_HOME running_world = Some ''/home/pilot''"
  "pw_dir running_world = None" "clock running_world = 1000" "fs running_world = Map.empty"
  "denied running_world = {}" "disk_free running_world = 4096"
  "printf_f running_world = (\<lambda>p x. zero_text p)"
  "phases running_world = []"
  by (simp_all add: running_world_def snprintf_def)

lemma running_world_drefs [simp]:
  "drefs running_world d =
     (if d = dr_com1_freq then Some 7 else if d = dr_on_ground then Some 3 else None)"
  by (cases d) (simp_all add: running_world_def)

lemma running_world_tmp [simp]:
  "tmp_file running_world = ''/home/pilot/.local/share/StratusATC/simAPI_input.json.tmp''"
  by (simp add: tmp_file_def snprintf_def)

lemma running_doc_length: "length (concat (telemetry_json running_world)) = 783"
  by (simp add: telemetry_json_def getd_def getf_def geti_def printf_d_def show_nat.simps
      digit_char_def bool_text_def zero_text_def length_concat)

subsection \<open>What a publish does to the files\<close>

text \<open>The side file after the last \<open>fprintf\<close>, and the publication path after the
  \<open>rename\<close>: the first \<open>disk_free\<close> bytes of the text.\<close>

lemma fprintf_seq_denied:
  "v \<in> set (fprintf_seq p ss w) \<Longrightarrow> denied v = denied w"
  using fprintf_seq_frame [of v p ss w] by auto

lemma side_file_result:
  assumes "tmp_file w \<notin> denied w"
  shows "fs (last (butlast (WriteTelemetryJSON_trace w))) (tmp_file w) =
           Some (take (disk_free w) (concat (telemetry_json w))) \<and>
         denied (last (butlast (WriteTelemetryJSON_trace w))) = denied w \<and>
         WriteTelemetryJSON w =
           rename_file (tmp_file w) (g_input_file w) (last (butlast (WriteTelemetryJSON_trace w)))"
proof -
  let ?w1 = "w\<lparr>fs := (fs w)(tmp_file w \<mapsto> [])\<rparr>"
  let ?ws = "?w1 # fprintf_seq (tmp_file w) (telemetry_json w) ?w1"
  define u where "u = last ?ws"
  have bl: "butlast (WriteTelemetryJSON_trace w) = ?ws"
    unfolding trace_open [OF assms] by (rule butlast_snoc)
  have "fs u (tmp_file w) = Some ([] @ take (disk_free ?w1) (concat (telemetry_json w)))"
    unfolding u_def by (rule fprintf_seq_short) simp
  then have side: "fs u (tmp_file w) = Some (take (disk_free w) (concat (telemetry_json w)))"
    by simp
  have "u \<in> set ?ws" unfolding u_def by (rule last_in_set) simp
  then have "u = ?w1 \<or> u \<in> set (fprintf_seq (tmp_file w) (telemetry_json w) ?w1)" by simp
  then have den: "denied u = denied w" using fprintf_seq_denied by auto
  have fin: "WriteTelemetryJSON w = rename_file (tmp_file w) (g_input_file w) u"
    unfolding u_def by (simp add: WriteTelemetryJSON_def trace_open [OF assms])
  from side den fin show ?thesis unfolding bl u_def by simp
qed

lemma publish_result:
  assumes "tmp_file w \<notin> denied w" and "tmp_file w \<noteq> g_input_file w"
    and "g_input_file w \<noteq> []" and "g_input_file w \<notin> denied w"
  shows "fs (WriteTelemetryJSON w) (g_input_file w) =
           Some (take (disk_free w) (concat (telemetry_json w)))"
proof -
  define u where "u = last (butlast (WriteTelemetryJSON_trace w))"
  from side_file_result [OF assms(1)]
  have "fs u (tmp_file w) = Some (take (disk_free w) (concat (telemetry_json w)))"
    "denied u = denied w" "WriteTelemetryJSON w = rename_file (tmp_file w) (g_input_file w) u"
    unfolding u_def by simp_all
  with assms(2-4) show ?thesis by (simp add: rename_file_def)
qed

lemma publish_other_files:
  assumes "p \<noteq> tmp_file w" and "p \<noteq> g_input_file w"
  shows "fs (WriteTelemetryJSON w) p = fs w p"
proof (cases "tmp_file w \<in> denied w")
  case True
  then show ?thesis by (simp add: WriteTelemetryJSON_denied)
next
  case False
  let ?w1 = "w\<lparr>fs := (fs w)(tmp_file w \<mapsto> [])\<rparr>"
  let ?ws = "?w1 # fprintf_seq (tmp_file w) (telemetry_json w) ?w1"
  define u where "u = last ?ws"
  have "u \<in> set ?ws" unfolding u_def by (rule last_in_set) simp
  then have "fs u p = fs ?w1 p"
    using fprintf_seq_other [of u "tmp_file w" "telemetry_json w" ?w1 p] assms(1)
    by auto
  then have l: "fs u p = fs w p" using assms(1) by simp
  have "WriteTelemetryJSON w = rename_file (tmp_file w) (g_input_file w) u"
    unfolding u_def by (simp add: WriteTelemetryJSON_def trace_open [OF False])
  with l assms show ?thesis by (simp add: rename_file_def split: option.splits)
qed

lemma tick_fs [simp]:
  "fs (fst (FlightLoopCallback w)) = fs (WriteTelemetryJSON (w\<lparr>phases := phases w @ [Sampling]\<rparr>))"
  by (simp add: FlightLoopCallback_def Let_def)

lemma tick_other_files:
  assumes "p \<noteq> tmp_file w" and "p \<noteq> g_input_file w"
  shows "fs (fst (FlightLoopCallback w)) p = fs w p"
  using publish_other_files [of p "w\<lparr>phases := phases w @ [Sampling]\<rparr>"] assms by simp

subsection \<open>What the temp-then-rename scheme achieves\<close>

text \<open>When the disk takes the whole document the scheme of the source is atomic: in
  every state the plugin can reach the side path \<open>tmp_file\<close> differs from the
  publication path \<open>g_input_file\<close>; no step before the last one of
  \<open>WriteTelemetryJSON\<close> changes the file at the publication path; in every state of
  the call that file is the previous one or the whole new document; when the side file
  can be opened it holds the whole document before the last step, which is the
  \<open>rename\<close>; and when the \<open>rename\<close> can succeed the publication path then holds
  the whole document.\<close>

lemma publish_atomic_when_written:
  assumes "reachable w" and "length (concat (telemetry_json w)) \<le> disk_free w"
  shows "tmp_file w \<noteq> g_input_file w \<and>
     (\<forall>v \<in> set (butlast (WriteTelemetryJSON_trace w)).
        fs v (g_input_file w) = fs w (g_input_file w)) \<and>
     (\<forall>v \<in> set (WriteTelemetryJSON_trace w).
        fs v (g_input_file w) = fs w (g_input_file w) \<or>
        fs v (g_input_file w) = Some (concat (telemetry_json w))) \<and>
     (tmp_file w \<notin> denied w \<longrightarrow>
        fs (last (butlast (WriteTelemetryJSON_trace w))) (tmp_file w) =
          Some (concat (telemetry_json w)) \<and>
        WriteTelemetryJSON w =
          rename_file (tmp_file w) (g_input_file w)
            (last (butlast (WriteTelemetryJSON_trace w)))) \<and>
     (tmp_file w \<notin> denied w \<and> g_input_file w \<noteq> [] \<and> g_input_file w \<notin> denied w \<longrightarrow>
        fs (WriteTelemetryJSON w) (g_input_file w) = Some (concat (telemetry_json w)))"
proof -
  let ?pub = "g_input_file w" and ?tmp = "tmp_file w" and ?doc = "concat (telemetry_json w)"
  have ne: "?tmp \<noteq> ?pub"
    using tmp_file_exact [OF reachable_paths_inv [OF assms(1)]] by simp
  have whole: "take (disk_free w) ?doc = ?doc" using assms(2) by simp
  show ?thesis
  proof (cases "?tmp \<in> denied w")
    case True
    with ne show ?thesis by (simp add: trace_denied)
  next
    case False
    let ?w1 = "w\<lparr>fs := (fs w)(?tmp \<mapsto> [])\<rparr>"
    let ?ws = "?w1 # fprintf_seq ?tmp (telemetry_json w) ?w1"
    define u where "u = last (butlast (WriteTelemetryJSON_trace w))"
    have tr: "WriteTelemetryJSON_trace w = ?ws @ [rename_file ?tmp ?pub (last ?ws)]"
      by (rule trace_open [OF False])
    have bl: "butlast (WriteTelemetryJSON_trace w) = ?ws"
      unfolding tr by (rule butlast_snoc)
    have before: "fs v ?pub = fs w ?pub" if "v \<in> set ?ws" for v
      using that ne fprintf_seq_other [of v ?tmp "telemetry_json w" ?w1 ?pub] by auto
    have "u \<in> set ?ws" unfolding u_def bl by (rule last_in_set) simp
    then have upub: "fs u ?pub = fs w ?pub" by (rule before)
    from side_file_result [OF False]
    have side: "fs u ?tmp = Some ?doc" and den: "denied u = denied w"
      and fin: "WriteTelemetryJSON w = rename_file ?tmp ?pub u"
      unfolding u_def whole by simp_all
    have last_state: "fs (WriteTelemetryJSON w) ?pub = fs w ?pub \<or>
        fs (WriteTelemetryJSON w) ?pub = Some ?doc"
      unfolding fin using side upub by (simp add: rename_file_def)
    have pub: "fs (WriteTelemetryJSON w) ?pub = Some ?doc"
      if "?pub \<noteq> []" "?pub \<notin> denied w"
      using publish_result [OF False ne that] whole by simp
    have "fs v ?pub = fs w ?pub \<or> fs v ?pub = Some ?doc"
      if "v \<in> set (WriteTelemetryJSON_trace w)" for v
    proof -
      from that have "v \<in> set ?ws \<or> v = WriteTelemetryJSON w"
        unfolding WriteTelemetryJSON_def tr by auto
      with before last_state show ?thesis by blast
    qed
    moreover have "\<forall>v \<in> set (butlast (WriteTelemetryJSON_trace w)). fs v ?pub = fs w ?pub"
      unfolding bl using before by blast
    ultimately show ?thesis
      using ne side fin pub unfolding u_def by blast
  qed
qed

text \<open>What the source does when the side file cannot be opened: the call consists of the
  one logging step; it leaves the world as it was but for the line \<open>ERROR Failed to open
  temp file for writing: ...\<close> appended to the plugin's log when the log is open; in
  particular the file system is unchanged and nothing is renamed.\<close>

lemma publish_open_failure:
  assumes "tmp_file w \<in> denied w"
  shows "WriteTelemetryJSON_trace w = [WriteTelemetryJSON w] \<and>
     WriteTelemetryJSON w =
       (if g_log_fp w
        then w\<lparr>log_lines := log_lines w @
               [(''ERROR'', ''Failed to open temp file for writing: '' @ tmp_file w)]\<rparr>
        else w) \<and>
     fs (WriteTelemetryJSON w) = fs w \<and>
     disk_free (WriteTelemetryJSON w) = disk_free w"
  using assms by (simp add: trace_denied WriteTelemetryJSON_denied Log_def)

subsection \<open>A publish on a disk with five bytes left\<close>

lemma full_disk_world_reachable: "reachable full_disk_world"
  by (rule reachable.environment [OF running_world_reachable])
    (simp add: same_globals_def full_disk_world_def)

lemma full_disk_doc: "telemetry_json full_disk_world = telemetry_json running_world"
  by (rule telemetry_json_cong) (simp_all add: full_disk_world_def fun_eq_iff)

lemma full_disk_text:
  \<open>take (disk_free full_disk_world) (concat (telemetry_json full_disk_world)) = ''{\<newline>  "''\<close>
proof -
  have "take 5 (concat (telemetry_json running_world)) =
      take 5 (concat (take 2 (telemetry_json running_world)))"
    by (simp add: telemetry_json_def)
  also have "\<dots> = [CHR ''{'', CHR 0x0A, CHR '' '', CHR '' '', CHR 0x22]"
    by (simp add: telemetry_json_def)
  finally show ?thesis by (simp add: full_disk_doc) (simp add: full_disk_world_def)
qed

lemma full_disk_paths:
  "tmp_file full_disk_world \<notin> denied full_disk_world"
  "tmp_file full_disk_world \<noteq> g_input_file full_disk_world"
  "g_input_file full_disk_world \<noteq> []"
  "g_input_file full_disk_world \<notin> denied full_disk_world"
  by (simp_all add: full_disk_world_def tmp_file_def snprintf_def)

section \<open>The claims\<close>

text \<open>
  C1 fails on the code. The source checks the result of neither \<open>fprintf\<close> nor
  \<open>fclose\<close> and renames in every case. In a reachable state with a complete
  snapshot published and five bytes left on the disk, the side file holds five bytes
  of the 783 of the document when the writes are over, and the last step of the publish
  puts these five bytes at the publication path: a partially written document, neither
  the previous one nor the new one.
\<close>

theorem short_write_publishes_partial_document:
  \<open>reachable full_disk_world \<and>
   length (concat (telemetry_json full_disk_world)) = 783 \<and>
   fs full_disk_world (g_input_file full_disk_world) = Some ''{"timestamp": 999}\<newline>'' \<and>
   fs (last (butlast (WriteTelemetryJSON_trace full_disk_world))) (tmp_file full_disk_world) =
     Some ''{\<newline>  "'' \<and>
   fs (last (WriteTelemetryJSON_trace full_disk_world)) (g_input_file full_disk_world) =
     Some ''{\<newline>  "''\<close>
proof -
  have a: \<open>fs full_disk_world (g_input_file full_disk_world) = Some ''{"timestamp": 999}\<newline>''\<close>
    by (simp add: full_disk_world_def)
  have b: "length (concat (telemetry_json full_disk_world)) = 783"
    using running_doc_length by (simp add: full_disk_doc)
  have c: \<open>fs (last (butlast (WriteTelemetryJSON_trace full_disk_world)))
      (tmp_file full_disk_world) = Some ''{\<newline>  "''\<close>
    using side_file_result [OF full_disk_paths(1)] unfolding full_disk_text by blast
  have d: \<open>fs (last (WriteTelemetryJSON_trace full_disk_world)) (g_input_file full_disk_world)
      = Some ''{\<newline>  "''\<close>
    using publish_result [OF full_disk_paths]
    unfolding full_disk_text WriteTelemetryJSON_def .
  from full_disk_world_reachable a b c d show ?thesis by blast
qed

text \<open>
  C2 fails on the code. Only the failure to open the side file abandons the publish.
  When the writes fail (here the disk takes five bytes of the document) the publish is
  not abandoned: the \<open>rename\<close> is performed, the snapshot published before is
  replaced by the five bytes, no line is added to the log and the tick returns 1 as
  always.
\<close>

theorem short_write_replaces_snapshot:
  \<open>disk_free full_disk_world < length (concat (telemetry_json full_disk_world)) \<and>
   fs full_disk_world (g_input_file full_disk_world) = Some ''{"timestamp": 999}\<newline>'' \<and>
   fs (WriteTelemetryJSON full_disk_world) (g_input_file full_disk_world) =
     Some ''{\<newline>  "'' \<and>
   fs (WriteTelemetryJSON full_disk_world) (tmp_file full_disk_world) = None \<and>
   log_lines (WriteTelemetryJSON full_disk_world) = log_lines full_disk_world \<and>
   snd (FlightLoopCallback full_disk_world) = 1\<close>
proof -
  have a: \<open>fs full_disk_world (g_input_file full_disk_world) = Some ''{"timestamp": 999}\<newline>''\<close>
    by (simp add: full_disk_world_def)
  have b: "disk_free full_disk_world < length (concat (telemetry_json full_disk_world))"
    using running_doc_length by (simp add: full_disk_doc) (simp add: full_disk_world_def)
  have c: \<open>fs (WriteTelemetryJSON full_disk_world) (g_input_file full_disk_world) =
      Some ''{\<newline>  "''\<close>
    using publish_result [OF full_disk_paths] unfolding full_disk_text .
  define u where "u = last (butlast (WriteTelemetryJSON_trace full_disk_world))"
  have s: "fs u (tmp_file full_disk_world) =
      Some (take (disk_free full_disk_world) (concat (telemetry_json full_disk_world)))"
    and dn: "denied u = denied full_disk_world"
    and fin: "WriteTelemetryJSON full_disk_world =
       rename_file (tmp_file full_disk_world) (g_input_file full_disk_world) u"
    using side_file_result [OF full_disk_paths(1)] unfolding u_def by blast+
  have "fs (rename_file (tmp_file full_disk_world) (g_input_file full_disk_world) u)
      (tmp_file full_disk_world) = None"
    using full_disk_paths by (simp add: rename_file_def s dn)
  then have d: "fs (WriteTelemetryJSON full_disk_world) (tmp_file full_disk_world) = None"
    unfolding fin .
  have e: "log_lines (WriteTelemetryJSON full_disk_world) = log_lines full_disk_world"
    using full_disk_paths(1) by simp
  from a b c d e show ?thesis by simp
qed



text \<open>
  C10. The draining step changes nothing: \<open>ReadCommandsJSONL\<close> returns the world it
  was given (the command log, the simulator and every global of the plugin included),
  so the world after a tick is the world the sampling phase left, but for the ghost
  record of the phases.
\<close>

theorem drain_changes_nothing:
  "ReadCommandsJSONL w = w \<and>
   fst (FlightLoopCallback w) =
     (WriteTelemetryJSON (w\<lparr>phases := phases w @ [Sampling]\<rparr>))
       \<lparr>phases := phases w @ [Sampling, Draining]\<rparr>"
  by (simp add: ReadCommandsJSONL_def FlightLoopCallback_def Let_def)

text \<open>
  C3 fails on the code. The client has appended one complete \<open>set_com1_frequency\<close>
  record; after the drain, and after a whole tick, the command log still holds the
  record (it is not empty) and the simulator's values are what they were: the record
  was neither returned nor applied.
\<close>

theorem drain_leaves_command:
  "fs command_world (g_output_file command_world) = Some command_line \<and>
   fs (ReadCommandsJSONL command_world) (g_output_file command_world) = Some command_line \<and>
   fs (fst (FlightLoopCallback command_world)) (g_output_file command_world) =
     Some command_line \<and>
   command_line \<noteq> [] \<and>
   datai (fst (FlightLoopCallback command_world)) = datai command_world"
proof -
  have "g_output_file command_world \<noteq> tmp_file command_world"
    "g_output_file command_world \<noteq> g_input_file command_world"
    by (simp_all add: command_world_def tmp_file_def snprintf_def)
  from tick_other_files [OF this]
  have t: "fs (fst (FlightLoopCallback command_world)) (g_output_file command_world) =
      fs command_world (g_output_file command_world)" .
  have a: "fs command_world (g_output_file command_world) = Some command_line"
    by (simp add: command_world_def)
  have b: "command_line \<noteq> []" by (simp add: command_line_def)
  show ?thesis unfolding t using a b by simp
qed

text \<open>
  C4 fails on the code. The command log holds one complete record and an unterminated
  fragment; after the drain, and after a whole tick, it holds both: the complete record
  was not consumed, and what is left is not the fragment alone.
\<close>

theorem drain_keeps_whole_log:
  "fs fragment_world (g_output_file fragment_world) = Some (command_line @ command_fragment) \<and>
   fs (ReadCommandsJSONL fragment_world) (g_output_file fragment_world) =
     Some (command_line @ command_fragment) \<and>
   fs (fst (FlightLoopCallback fragment_world)) (g_output_file fragment_world) =
     Some (command_line @ command_fragment) \<and>
   command_line @ command_fragment \<noteq> command_fragment"
proof -
  have "g_output_file fragment_world \<noteq> tmp_file fragment_world"
    "g_output_file fragment_world \<noteq> g_input_file fragment_world"
    by (simp_all add: fragment_world_def tmp_file_def snprintf_def)
  from tick_other_files [OF this]
  have t: "fs (fst (FlightLoopCallback fragment_world)) (g_output_file fragment_world) =
      fs fragment_world (g_output_file fragment_world)" .
  have a: "fs fragment_world (g_output_file fragment_world) =
      Some (command_line @ command_fragment)"
    by (simp add: fragment_world_def)
  have b: "command_line \<noteq> []" by (simp add: command_line_def)
  show ?thesis unfolding t using a b by simp
qed

subsection \<open>The life cycle\<close>

lemma stop_without_start: "fresh_globals w \<Longrightarrow> XPluginStop w = w"
  by (simp add: fresh_globals_def XPluginStop_def Log_def LogClose_def)

lemma start_stop_no_leak:
  "loops (XPluginStop (fst (XPluginStart w))) = (loops w)(next_loop w := None) \<and>
   g_flight_loop_id (XPluginStop (fst (XPluginStart w))) = None"
  by simp

text \<open>
  C8 fails on the code. \<open>XPluginStart\<close> registers a flight loop whether or not one is
  registered already: after start, start, stop the first registration (identifier 1)
  still exists while the plugin holds no identifier; with an enable in between, the
  leaked loop stays scheduled every second. (After start, stop nothing is left.)
\<close>

theorem second_start_leaks_registration:
  "loops (calls [Start, Stop] boot_world) = Map.empty \<and>
   loops (calls [Start, Start, Stop] boot_world) = [1 \<mapsto> (0, 0)] \<and>
   g_flight_loop_id (calls [Start, Start, Stop] boot_world) = None \<and>
   loops (calls [Start, Enable, Start, Stop] boot_world) = [1 \<mapsto> (1, 1)]"
  by simp

text \<open>
  C9, amended (as stated it fails in one word, see below). The period is fixed at one
  second: the callback always returns 1, the interval after which the host is to call
  it again; enabling the plugin right after its start schedules the flight loop the
  start created at interval 1, relative to now; and so does enabling in any state where
  the plugin holds a registered flight loop.
\<close>

theorem tick_period_one_second:
  "snd (FlightLoopCallback w) = 1 \<and>
   g_flight_loop_id (fst (XPluginEnable (fst (XPluginStart w)))) = Some (next_loop w) \<and>
   loops (fst (XPluginEnable (fst (XPluginStart w)))) (next_loop w) = Some (1, 1) \<and>
   (\<forall>i. g_flight_loop_id w = Some i \<longrightarrow> i \<in> dom (loops w) \<longrightarrow>
      loops (fst (XPluginEnable w)) i = Some (1, 1))"
  by simp

theorem tick_period_one_second_witness:
  "g_flight_loop_id running_world = Some 1 \<and> 1 \<in> dom (loops running_world) \<and>
   loops (fst (XPluginEnable running_world)) 1 = Some (1, 1) \<and>
   snd (FlightLoopCallback running_world) = 1"
proof -
  have "g_flight_loop_id running_world = Some 1" "1 \<in> dom (loops running_world)"
    by simp_all
  with tick_period_one_second [of running_world] show ?thesis by blast
qed

text \<open>
  The counterexample to C9 as stated: the period is not configurable. In no state of
  the plugin, the simulator, the file system and the environment does the callback
  return an interval other than 1, or does enabling schedule the plugin's registered
  flight loop at another interval.
\<close>

theorem period_not_configurable:
  "\<not> (\<exists>w. snd (FlightLoopCallback w) \<noteq> 1) \<and>
   \<not> (\<exists>w i. g_flight_loop_id w = Some i \<and> i \<in> dom (loops w) \<and>
          loops (fst (XPluginEnable w)) i \<noteq> Some (1, 1))"
  by auto

section \<open>The snapshot document\<close>

lemma then_lex_simps [simp]:
  "then_lex None b = None"
  "then_lex (Some []) b = b"
  "then_lex (emit t a) b = emit t (then_lex a b)"
  "then_lex (Some (t # ts)) b = emit t (then_lex (Some ts) b)"
  by (cases a; cases b; simp add: then_lex_def emit_def option.map_ident)+

lemma emit_simps [simp]:
  "emit t None = None"
  "emit t (Some ts) = Some (t # ts)"
  by (simp_all add: emit_def)

lemma nl_facts [simp]:
  "classify (CHR 0x0A) = CSpace" "ctrl_char (CHR 0x0A)" "unescape (CHR 0x0A) = None"
  by (simp_all add: classify_def ctrl_char_def unescape_def)

lemma then_lex_Nil [simp]: "then_lex a (Some []) = a"
  by (cases a) (simp_all add: then_lex_def)

lemma lex_line_Cons: "lex_line m (c # l) = lex_json m (c # l @ [CHR 0x0A])"
  by (simp add: lex_line_def)

lemma lex_line_Nil: "lex_line m [] = lex_json m [CHR 0x0A]"
  by (simp add: lex_line_def)

lemma lex_nl:
  "lex_json m (l @ CHR 0x0A # rest) = then_lex (lex_line m l) (lex_json LTop rest)"
proof (induction l arbitrary: m)
  case Nil
  show ?case by (cases m) (simp_all add: lex_line_Nil)
next
  case (Cons c l)
  have fold: "lex_json m' (l @ [CHR 0x0A]) = lex_line m' l" for m'
    by (simp add: lex_line_def)
  show ?case
  proof (cases m)
    case LTop
    then show ?thesis
      by (cases "classify c") (simp_all add: lex_line_Cons Cons.IH fold)
  next
    case (InStr acc)
    then show ?thesis
      by (simp add: lex_line_Cons Cons.IH fold)
  next
    case (InEsc acc)
    then show ?thesis
      by (cases "unescape c") (simp_all add: lex_line_Cons Cons.IH fold)
  next
    case (InLit acc)
    then show ?thesis
      by (cases "classify c") (simp_all add: lex_line_Cons Cons.IH fold)
  qed
qed

lemma lex_lines:
  "list_all (\<lambda>l. l \<noteq> [] \<and> last l = CHR 0x0A) ls \<Longrightarrow>
   lex_json LTop (concat ls) = foldr (\<lambda>l r. then_lex (lex_json LTop l) r) ls (Some [])"
proof (induction ls)
  case Nil
  then show ?case by simp
next
  case (Cons l ls)
  then have "l \<noteq> []" "last l = CHR 0x0A" by simp_all
  then have "l = butlast l @ [CHR 0x0A]"
    by (metis append_butlast_last_id)
  then obtain l0 where l: "l = l0 @ [CHR 0x0A]" ..
  have "lex_json LTop (concat (l # ls)) = lex_json LTop (l0 @ CHR 0x0A # concat ls)"
    by (simp add: l)
  also have "\<dots> = then_lex (lex_line LTop l0) (lex_json LTop (concat ls))"
    by (rule lex_nl)
  also have "lex_line LTop l0 = lex_json LTop l"
    by (simp add: lex_line_def l)
  finally show ?case using Cons by simp
qed

lemma lex_lit_seg:
  "list_all (\<lambda>c. classify c = CLiteral) n \<Longrightarrow> classify c \<noteq> CLiteral \<Longrightarrow>
   lex_json (InLit acc) (n @ c # rest) = emit (TLit (rev acc @ n)) (lex_json LTop (c # rest))"
  by (induction n arbitrary: acc) simp_all

lemma lex_lit_start:
  assumes "literal_text n" and "classify c \<noteq> CLiteral"
  shows "lex_json LTop (n @ c # rest) = emit (TLit n) (lex_json LTop (c # rest))"
proof -
  from assms(1) obtain a n' where n: "n = a # n'" and a: "classify a = CLiteral"
    and n': "list_all (\<lambda>c. classify c = CLiteral) n'"
    by (cases n) (auto simp: literal_text_def)
  show ?thesis using lex_lit_seg [OF n' assms(2), of "[a]" rest] a by (simp add: n)
qed

lemma lex_str_seg:
  "plain_text a \<Longrightarrow>
   lex_json (InStr acc) (a @ CHR 0x22 # rest) = emit (TStr (rev acc @ a)) (lex_json LTop rest)"
  by (induction a arbitrary: acc) (simp_all add: plain_text_def classify_def)

lemma digit_literal: "is_digit c \<Longrightarrow> classify c = CLiteral"
  by (auto simp: is_digit_def classify_def)

lemma digits_literal: "list_all is_digit s \<Longrightarrow> list_all (\<lambda>c. classify c = CLiteral) s"
  by (induction s) (simp_all add: digit_literal)

lemma takeWhile_digit_literal: "list_all (\<lambda>c. classify c = CLiteral) (takeWhile is_digit u)"
  by (induction u) (simp_all add: digit_literal)

lemma unsigned_number_literal:
  assumes "unsigned_number u"
  shows "u \<noteq> [] \<and> list_all (\<lambda>c. classify c = CLiteral) u"
proof -
  define r where "r = dropWhile is_digit u"
  from assms have ip: "takeWhile is_digit u \<noteq> []"
    and r: "case r of [] \<Rightarrow> True | c # f \<Rightarrow> c = CHR ''.'' \<and> f \<noteq> [] \<and> list_all is_digit f"
    by (simp_all add: unsigned_number_def r_def)
  have "list_all (\<lambda>c. classify c = CLiteral) r"
  proof (cases r)
    case Nil
    then show ?thesis by simp
  next
    case (Cons c f)
    with r have "c = CHR ''.''" "list_all is_digit f" by simp_all
    then show ?thesis using Cons digits_literal [of f] by (simp add: classify_def)
  qed
  moreover have "u = takeWhile is_digit u @ r" by (simp add: r_def)
  ultimately have "list_all (\<lambda>c. classify c = CLiteral) u"
    using takeWhile_digit_literal [of u] by (metis list_all_append)
  moreover from ip have "u \<noteq> []" by auto
  ultimately show ?thesis by simp
qed

lemma json_number_literal: "json_number s \<Longrightarrow> literal_text s"
proof (cases s)
  case Nil
  assume "json_number s" with Nil show ?thesis by (simp add: json_number_def)
next
  case (Cons c r)
  assume js: "json_number s"
  show ?thesis
  proof (cases "c = CHR ''-''")
    case True
    with js Cons have "unsigned_number r" by (simp add: json_number_def)
    from unsigned_number_literal [OF this] True Cons show ?thesis
      by (simp add: literal_text_def classify_def)
  next
    case False
    with js Cons have "unsigned_number s" by (simp add: json_number_def)
    from unsigned_number_literal [OF this] show ?thesis
      by (simp add: literal_text_def)
  qed
qed

lemma lit_value_number: "json_number s \<Longrightarrow> lit_value s = Some (JNum s)"
proof -
  have "\<not> json_number ''true''" "\<not> json_number ''false''" "\<not> json_number ''null''"
    by (simp_all add: json_number_def unsigned_number_def is_digit_def)
  then show "json_number s \<Longrightarrow> lit_value s = Some (JNum s)"
    by (auto simp: lit_value_def)
qed

lemma digits_unsigned: "s \<noteq> [] \<Longrightarrow> list_all is_digit s \<Longrightarrow> unsigned_number s"
proof -
  assume s: "s \<noteq> []" "list_all is_digit s"
  then have tw: "takeWhile is_digit s = s" and dw: "dropWhile is_digit s = []"
    by (simp_all add: list_all_iff)
  show ?thesis unfolding unsigned_number_def tw dw using s(1) by simp
qed

lemma show_nat_digits: "show_nat n \<noteq> [] \<and> list_all is_digit (show_nat n)"
proof (induction n rule: show_nat.induct)
  case (1 n)
  have d: "is_digit (digit_char k)" if "k < 10" for k
  proof -
    from that have "k \<in> {0, 1, 2, 3, 4, 5, 6, 7, 8, 9}" by auto
    then show ?thesis by (auto simp: is_digit_def digit_char_def)
  qed
  show ?case
  proof (cases "n < 10")
    case True
    then show ?thesis by (subst (1 2) show_nat.simps) (simp add: d)
  next
    case False
    with 1 have "show_nat (n div 10) \<noteq> [] \<and> list_all is_digit (show_nat (n div 10))" by simp
    with False show ?thesis by (subst (1 2) show_nat.simps) (simp add: d)
  qed
qed

lemma printf_d_number: "json_number (printf_d i)"
proof -
  have u: "unsigned_number (show_nat n)" for n
    using show_nat_digits [of n] digits_unsigned by blast
  show ?thesis
  proof (cases "i < 0")
    case True
    then show ?thesis using u by (simp add: printf_d_def json_number_def)
  next
    case False
    obtain c r where cr: "show_nat (nat i) = c # r"
      using show_nat_digits [of "nat i"] by (cases "show_nat (nat i)") auto
    with show_nat_digits [of "nat i"] have "is_digit c" by simp
    then have "c \<noteq> CHR ''-''" by (auto simp: is_digit_def)
    with False cr u [of "nat i"] show ?thesis by (simp add: printf_d_def json_number_def)
  qed
qed

lemma bool_text_literal: "literal_text (bool_text x)"
  by (simp add: bool_text_def literal_text_def classify_def)

lemma bool_text_value: "lit_value (bool_text x) = Some (JBool (x \<noteq> 0))"
  by (simp add: bool_text_def lit_value_def)

lemma telemetry_lines:
  "list_all (\<lambda>l. l \<noteq> [] \<and> last l = CHR 0x0A) (telemetry_json w)"
  by (simp add: telemetry_json_def)

lemma snapshot_parses:
  assumes "well_formatted w"
  shows "parse_json (concat (telemetry_json w)) = Some (snapshot_json w)"
proof -
  have f [simp]: "literal_text (printf_f w p x)" "lit_value (printf_f w p x) = Some (JNum (printf_f w p x))" for p x
    using assms by (simp_all add: well_formatted_def json_number_literal lit_value_number)
  have d [simp]: "literal_text (printf_d i)" "lit_value (printf_d i) = Some (JNum (printf_d i))" for i
    by (simp_all add: printf_d_number json_number_literal lit_value_number)
  have a [simp]: "plain_text (acf_file w)"
    using assms by (simp add: well_formatted_def)
  have l: "lex_json LTop (concat (telemetry_json w)) =
      foldr (\<lambda>l r. then_lex (lex_json LTop l) r) (telemetry_json w) (Some [])"
    by (rule lex_lines [OF telemetry_lines])
  show ?thesis
    unfolding parse_json_def l
    by (simp add: telemetry_json_def snapshot_json_def classify_def ctrl_char_def
        lex_lit_start lex_str_seg bool_text_literal bool_text_value)
qed

lemma printf_d_zero: "printf_d 0 = ''0''"
  by (simp add: printf_d_def show_nat.simps digit_char_def)

lemma unbound_reads_zero:
  "drefs w d = None \<Longrightarrow> getd w d = 0 \<and> getf w d = 0 \<and> geti w d = 0"
  by (simp add: getd_def getf_def geti_def)

lemma snapshot_sentinel:
  "drefs w d = None \<Longrightarrow> jget (field_path d) (snapshot_json w) = Some (sentinel w d)"
  by (cases d) (simp_all add: snapshot_json_def sentinel_def unbound_reads_zero printf_d_zero)

lemma published_text:
  assumes "reachable w" and "length (concat (telemetry_json w)) \<le> disk_free w"
    and "tmp_file w \<notin> denied w"
    and "g_input_file w \<noteq> []" and "g_input_file w \<notin> denied w"
  shows "published w = Some (concat (telemetry_json w))"
proof -
  have "tmp_file w \<noteq> g_input_file w"
    using tmp_file_exact [OF reachable_paths_inv [OF assms(1)]] by simp
  from publish_result [OF assms(3) this assms(4,5)] assms(2) show ?thesis
    by (simp add: published_def)
qed

lemma bind_zero_text:
  assumes "drefs w d = None" and "\<forall>d'. drefs w d' \<noteq> Some h"
  shows "telemetry_json (bind_zero d h w) = telemetry_json w"
proof -
  have "getd (bind_zero d h w) d' = getd w d'" "getf (bind_zero d h w) d' = getf w d'"
    "geti (bind_zero d h w) d' = geti w d'" for d'
    using assms by (auto simp: bind_zero_def getd_def getf_def geti_def split: option.splits)
  then show ?thesis by (simp add: telemetry_json_def) (simp add: bind_zero_def)
qed

text \<open>
  C7. A field whose DataRef handle is \<open>NULL\<close> is sampled as 0, and the text written is
  the text that would be written were the DataRef bound (to a handle \<open>h\<close> no other
  variable holds) and reading 0. When the publish succeeds (the state is reachable, the
  side file can be opened, the disk takes the document, and the side file can be renamed
  onto the publication path: that path is set and not refused) and the text is well
  formatted, the published document read as JSON has the field, at its path, with the
  sentinel:
  the number \<open>printf\<close> prints for 0 in the field's format, or \<open>false\<close> for the two
  flags.
\<close>

theorem unbound_field_has_sentinel:
  assumes "drefs w d = None"
  shows "getd w d = 0 \<and> getf w d = 0 \<and> geti w d = 0 \<and>
    ((\<forall>d'. drefs w d' \<noteq> Some h) \<longrightarrow> telemetry_json (bind_zero d h w) = telemetry_json w) \<and>
    (reachable w \<and> tmp_file w \<notin> denied w \<and>
     g_input_file w \<noteq> [] \<and> g_input_file w \<notin> denied w \<and>
     length (concat (telemetry_json w)) \<le> disk_free w \<and> well_formatted w \<longrightarrow>
       Option.bind (Option.bind (published w) parse_json) (jget (field_path d)) =
         Some (sentinel w d))"
  using assms
  by (simp add: unbound_reads_zero bind_zero_text published_text snapshot_parses
      snapshot_sentinel)

lemma running_world_well_formatted: "well_formatted running_world"
proof -
  have "json_number (zero_text p)" for p
    by (simp add: zero_text_def json_number_def unsigned_number_def is_digit_def)
  then show ?thesis
    by (simp add: well_formatted_def plain_text_def classify_def ctrl_char_def)
qed

theorem unbound_field_has_sentinel_witness:
  "drefs running_world dr_lat = None \<and>
   (\<forall>d'. drefs running_world d' \<noteq> Some 11) \<and>
   reachable running_world \<and> tmp_file running_world \<notin> denied running_world \<and>
   g_input_file running_world \<noteq> [] \<and> g_input_file running_world \<notin> denied running_world \<and>
   length (concat (telemetry_json running_world)) \<le> disk_free running_world \<and>
   well_formatted running_world \<and>
   getd running_world dr_lat = 0 \<and>
   telemetry_json (bind_zero dr_lat 11 running_world) = telemetry_json running_world \<and>
   Option.bind (Option.bind (published running_world) parse_json)
     (jget [''position'', ''latitude'']) = Some (JNum ''0.00000000'')"
proof -
  have a: "drefs running_world dr_lat = None" by simp
  have b: "\<forall>d'. drefs running_world d' \<noteq> Some 11" by simp
  have c: "tmp_file running_world \<notin> denied running_world"
    "g_input_file running_world \<noteq> []" "g_input_file running_world \<notin> denied running_world"
    by simp_all
  have d: "length (concat (telemetry_json running_world)) \<le> disk_free running_world"
    by (simp add: running_doc_length)
  have s: "sentinel running_world dr_lat = JNum ''0.00000000''"
    by (simp add: sentinel_def zero_text_def)
  have p: "field_path dr_lat = [''position'', ''latitude'']" by simp
  from unbound_field_has_sentinel [OF a, of 11]
    a b c d running_world_reachable running_world_well_formatted
  show ?thesis unfolding s p by blast
qed

text \<open>What holds of the schema: when the publish succeeds and the text is well
  formatted, the published document is \<open>snapshot_json\<close>, with its ten top-level fields.\<close>

lemma published_snapshot_fields:
  assumes "reachable w" and "tmp_file w \<notin> denied w"
    and "g_input_file w \<noteq> []" and "g_input_file w \<notin> denied w"
    and "length (concat (telemetry_json w)) \<le> disk_free w" and "well_formatted w"
  shows "Option.bind (published w) parse_json = Some (snapshot_json w) \<and>
     top_level_fields (snapshot_json w) =
       [''timestamp'', ''simulator'', ''aircraft'', ''position'', ''orientation'', ''speed'',
        ''radios'', ''transponder'', ''autopilot'', ''state'']"
  using assms by (simp add: published_text snapshot_parses) (simp add: snapshot_json_def)

lemma quoted_world_reachable: "reachable quoted_world"
  by (rule reachable.environment [OF running_world_reachable])
    (simp add: same_globals_def quoted_world_def)

lemma quoted_doc_length: "length (concat (telemetry_json quoted_world)) = 794"
  by (simp add: telemetry_json_def getd_def getf_def geti_def printf_d_def show_nat.simps
      digit_char_def bool_text_def zero_text_def length_concat quoted_world_def)

text \<open>
  C6 fails on the code. The aircraft file name is copied into the text between two
  double quotes as it is. With the name \<open>x", "extra": "y.acf\<close> the publish succeeds
  and the published document, read as JSON, has eleven top-level fields: \<open>aircraft\<close>
  is \<open>x\<close> and a field \<open>extra\<close> follows it.
\<close>

theorem quoted_aircraft_name_adds_field:
  \<open>acf_file quoted_world = ''x", "extra": "y.acf'' \<and>
   published quoted_world = Some (concat (telemetry_json quoted_world)) \<and>
   map_option top_level_fields (parse_json (concat (telemetry_json quoted_world))) =
     Some [''timestamp'', ''simulator'', ''aircraft'', ''extra'', ''position'',
           ''orientation'', ''speed'', ''radios'', ''transponder'', ''autopilot'', ''state''] \<and>
   Option.bind (parse_json (concat (telemetry_json quoted_world))) (jget [''aircraft'']) =
     Some (JStr ''x'') \<and>
   Option.bind (parse_json (concat (telemetry_json quoted_world))) (jget [''extra'']) =
     Some (JStr ''y.acf'')\<close>
proof -
  have p: "published quoted_world = Some (concat (telemetry_json quoted_world))"
    by (rule published_text [OF quoted_world_reachable])
      (simp_all add: quoted_doc_length, simp_all add: quoted_world_def tmp_file_def snprintf_def)
  have l: "lex_json LTop (concat (telemetry_json quoted_world)) =
      foldr (\<lambda>l r. then_lex (lex_json LTop l) r) (telemetry_json quoted_world) (Some [])"
    by (rule lex_lines [OF telemetry_lines])
  have n: "lit_value ''1000'' = Some (JNum ''1000'')" "lit_value ''0'' = Some (JNum ''0'')"
    "lit_value ''0.00'' = Some (JNum ''0.00'')"
    "lit_value ''0.00000000'' = Some (JNum ''0.00000000'')"
    "lit_value ''118325000'' = Some (JNum ''118325000'')"
    "lit_value ''true'' = Some (JBool True)" "lit_value ''false'' = Some (JBool False)"
    by (simp_all add: lit_value_def json_number_def unsigned_number_def is_digit_def)
  have j: "parse_json (concat (telemetry_json quoted_world)) =
     Some (JObj
      [(''timestamp'', JNum ''1000''),
       (''simulator'', JStr ''X-Plane''),
       (''aircraft'', JStr ''x''),
       (''extra'', JStr ''y.acf''),
       (''position'', JObj
          [(''latitude'', JNum ''0.00000000''),
           (''longitude'', JNum ''0.00000000''),
           (''altitude_msl_m'', JNum ''0.00''),
           (''altitude_agl_m'', JNum ''0.00'')]),
       (''orientation'', JObj
          [(''heading_mag'', JNum ''0.00''),
           (''heading_true'', JNum ''0.00''),
           (''pitch'', JNum ''0.00''),
           (''roll'', JNum ''0.00'')]),
       (''speed'', JObj
          [(''ground_speed_mps'', JNum ''0.00''),
           (''ias_kts'', JNum ''0.00''),
           (''tas_mps'', JNum ''0.00''),
           (''vertical_speed_fpm'', JNum ''0.00'')]),
       (''radios'', JObj
          [(''com1_hz'', JNum ''118325000''),
           (''com1_standby_hz'', JNum ''0''),
           (''com2_hz'', JNum ''0''),
           (''com2_standby_hz'', JNum ''0''),
           (''nav1_hz'', JNum ''0''),
           (''nav2_hz'', JNum ''0'')]),
       (''transponder'', JObj [(''code'', JNum ''0''), (''mode'', JNum ''0'')]),
       (''autopilot'', JObj
          [(''altitude_ft'', JNum ''0''), (''heading'', JNum ''0''), (''vs_fpm'', JNum ''0'')]),
       (''state'', JObj [(''on_ground'', JBool True), (''paused'', JBool False)])])"
    unfolding parse_json_def l
    by (simp add: telemetry_json_def quoted_world_def classify_def ctrl_char_def
        getd_def getf_def geti_def printf_d_def show_nat.simps digit_char_def
        bool_text_def zero_text_def n)
  show ?thesis
    unfolding j p by (simp add: quoted_world_def)
qed

end
